theory Spec2Isabelle
  imports Main "HOL-Library.AList" "HOL-Library.List_Lexorder" "HOL-Library.Char_ord"
begin

section \<open>JSON values and the two serialisers\<close>

text \<open>
  Both services (\<^verbatim>\<open>src/src/main.py\<close> and \<^verbatim>\<open>src/python-fastapi/src/main.py\<close>) move data
  between Python and the JavaScript engine as JSON text. A JSON object is the list of its
  properties in the order in which the producer enumerates them: insertion order for a
  Python dict; for a JavaScript object the keys that are array indices first, in numeric
  order, then the other string keys in insertion order. Numbers are integers only, and the
  serialisers below print them in plain decimal notation, as both languages do for the
  integers that a JavaScript number holds exactly; numbers with a fraction or an exponent
  (which the two languages print differently, \<^verbatim>\<open>1e-05\<close> against \<^verbatim>\<open>0.00001\<close>) are not values of
  this type. Characters are code points below 256.
\<close>

datatype json =
    JNull
  | JBool bool
  | JNum int
  | JStr string
  | JArr "json list"
  | JObj "(string \<times> json) list"

definition dq :: string where
  "dq = [CHR 0x22]"

definition sq :: string where
  "sq = [CHR 0x27]"

definition backslash :: char where
  "backslash = CHR 0x5C"

definition hexdigit :: "nat \<Rightarrow> char" where
  "hexdigit n = (''0123456789abcdef'' ! (n mod 16))"

text \<open>The six-character escape \<^verbatim>\<open>\u00xy\<close> (lower-case hexadecimal in Python and in V8).\<close>

definition u_escape :: "char \<Rightarrow> string" where
  "u_escape c = [backslash, CHR ''u'', CHR ''0'', CHR ''0'',
     hexdigit (of_char c div 16), hexdigit (of_char c mod 16)]"

definition short_escape :: "char \<Rightarrow> string option" where
  "short_escape c =
     (if c = CHR 0x22 then Some [backslash, CHR 0x22]
      else if c = backslash then Some [backslash, backslash]
      else if c = CHR 0x0A then Some [backslash, CHR ''n'']
      else if c = CHR 0x0D then Some [backslash, CHR ''r'']
      else if c = CHR 0x09 then Some [backslash, CHR ''t'']
      else if c = CHR 0x08 then Some [backslash, CHR ''b'']
      else if c = CHR 0x0C then Some [backslash, CHR ''f'']
      else None)"

text \<open>
  Python's \<^verbatim>\<open>json.dumps\<close> with the default \<^verbatim>\<open>ensure_ascii=True\<close>: everything outside
  the printable ASCII range \<^verbatim>\<open>' '..'~'\<close> is escaped.
\<close>

definition py_escape_char :: "char \<Rightarrow> string" where
  "py_escape_char c =
     (case short_escape c of
        Some e \<Rightarrow> e
      | None \<Rightarrow> if (32::nat) \<le> of_char c \<and> of_char c \<le> (126::nat) then [c] else u_escape c)"

text \<open>JavaScript's \<^verbatim>\<open>JSON.stringify\<close>: only control characters below U+0020 are escaped.\<close>

definition js_escape_char :: "char \<Rightarrow> string" where
  "js_escape_char c =
     (case short_escape c of
        Some e \<Rightarrow> e
      | None \<Rightarrow> if (of_char c :: nat) < 32 then u_escape c else [c])"

definition py_quote :: "string \<Rightarrow> string" where
  "py_quote s = dq @ concat (map py_escape_char s) @ dq"

definition js_quote :: "string \<Rightarrow> string" where
  "js_quote s = dq @ concat (map js_escape_char s) @ dq"

fun digits :: "nat \<Rightarrow> string" where
  "digits n = (if n < 10 then [hexdigit n] else digits (n div 10) @ [hexdigit (n mod 10)])"

definition show_int :: "int \<Rightarrow> string" where
  "show_int n = (if n < 0 then CHR ''-'' # digits (nat (- n)) else digits (nat n))"

fun join :: "string \<Rightarrow> string list \<Rightarrow> string" where
  "join sep [] = []"
| "join sep [x] = x"
| "join sep (x # y # ys) = x @ sep @ join sep (y # ys)"

text \<open>
  \<^verbatim>\<open>json.dumps(value, sort_keys=sk, separators=(isep, ksep))\<close>. With \<^verbatim>\<open>sort_keys\<close> the items
  of every dict, at every depth, are emitted in ascending key order.
\<close>

primrec py_dumps :: "bool \<Rightarrow> string \<Rightarrow> string \<Rightarrow> json \<Rightarrow> string" where
  "py_dumps sk isep ksep JNull = ''null''"
| "py_dumps sk isep ksep (JBool b) = (if b then ''true'' else ''false'')"
| "py_dumps sk isep ksep (JNum n) = show_int n"
| "py_dumps sk isep ksep (JStr s) = py_quote s"
| "py_dumps sk isep ksep (JArr xs) =
     ''['' @ join isep (map (py_dumps sk isep ksep) xs) @ '']''"
| "py_dumps sk isep ksep (JObj kvs) =
     ''{'' @ join isep (map (\<lambda>(k, s). py_quote k @ ksep @ s)
        ((if sk then sort_key fst else id) (map (map_prod id (py_dumps sk isep ksep)) kvs))) @ ''}''"

text \<open>\<^verbatim>\<open>JSON.stringify(value)\<close>: compact, properties in enumeration order.\<close>

primrec js_stringify :: "json \<Rightarrow> string" where
  "js_stringify JNull = ''null''"
| "js_stringify (JBool b) = (if b then ''true'' else ''false'')"
| "js_stringify (JNum n) = show_int n"
| "js_stringify (JStr s) = js_quote s"
| "js_stringify (JArr xs) = ''['' @ join '','' (map js_stringify xs) @ '']''"
| "js_stringify (JObj kvs) =
     ''{'' @ join '','' (map (\<lambda>(k, s). js_quote k @ '':'' @ s)
        (map (map_prod id js_stringify) kvs)) @ ''}''"

text \<open>
  An object literal whose property values may be \<^verbatim>\<open>undefined\<close> (\<open>None\<close>):
  \<^verbatim>\<open>JSON.stringify\<close> leaves such properties out.
\<close>

fun js_object :: "(string \<times> json option) list \<Rightarrow> (string \<times> json) list" where
  "js_object [] = []"
| "js_object ((k, None) # ps) = js_object ps"
| "js_object ((k, Some v) # ps) = (k, v) # js_object ps"

definition js_truthy :: "json \<Rightarrow> bool" where
  "js_truthy v =
     (case v of JNull \<Rightarrow> False | JBool b \<Rightarrow> b | JNum n \<Rightarrow> n \<noteq> 0 | JStr s \<Rightarrow> s \<noteq> []
      | JArr xs \<Rightarrow> True | JObj kvs \<Rightarrow> True)"

text \<open>The JavaScript expression \<^verbatim>\<open>options || {}\<close>.\<close>

definition js_or_empty :: "json option \<Rightarrow> json" where
  "js_or_empty opts =
     (case opts of None \<Rightarrow> JObj [] | Some v \<Rightarrow> if js_truthy v then v else JObj [])"

definition py_truthy_json :: "json \<Rightarrow> bool" where
  "py_truthy_json v =
     (case v of JNull \<Rightarrow> False | JBool b \<Rightarrow> b | JNum n \<Rightarrow> n \<noteq> 0 | JStr s \<Rightarrow> s \<noteq> []
      | JArr xs \<Rightarrow> xs \<noteq> [] | JObj kvs \<Rightarrow> kvs \<noteq> [])"

section \<open>The two implementations\<close>

datatype variant =
    Standalone  \<comment> \<open>\<^verbatim>\<open>src/src/main.py\<close>\<close>
  | FastAPI     \<comment> \<open>\<^verbatim>\<open>src/python-fastapi/src/main.py\<close>\<close>

subsection \<open>Canonical keys\<close>

text \<open>
  The Python side, when the results map is built:
  \<^verbatim>\<open>json.dumps({'url': req['url'], 'options': req.get('options', {})})\<close> in the standalone
  file, and the same with \<^verbatim>\<open>sort_keys=True, separators=(',', ':')\<close> in the FastAPI file.
\<close>

definition py_key :: "variant \<Rightarrow> json \<Rightarrow> json \<Rightarrow> string" where
  "py_key v u options =
     (case v of
        Standalone \<Rightarrow> py_dumps False '', '' '': '' (JObj [(''url'', u), (''options'', options)])
      | FastAPI \<Rightarrow> py_dumps True '','' '':'' (JObj [(''url'', u), (''options'', options)]))"

text \<open>
  The JavaScript side, inside the replay context:
  \<^verbatim>\<open>JSON.stringify({ url: url, options: options || {} })\<close> in the standalone file and
  \<^verbatim>\<open>JSON.stringify({ 'options': options || {}, 'url': url })\<close> in the FastAPI file.
\<close>

definition js_key :: "variant \<Rightarrow> json option \<Rightarrow> json option \<Rightarrow> string" where
  "js_key v u options =
     (case v of
        Standalone \<Rightarrow>
          js_stringify (JObj (js_object [(''url'', u), (''options'', Some (js_or_empty options))]))
      | FastAPI \<Rightarrow>
          js_stringify (JObj (js_object [(''options'', Some (js_or_empty options)), (''url'', u)])))"

subsection \<open>The transport collaborator and \<^verbatim>\<open>perform_fetch\<close>\<close>

text \<open>
  The HTTP client (\<^verbatim>\<open>app.state.http_client\<close>) is an external collaborator: a function from
  the four arguments of \<^verbatim>\<open>request(method=, url=, headers=, content=)\<close> to either a raised
  exception (its message) or a response. A response is read through the attributes the code
  uses: \<^verbatim>\<open>is_success\<close>, \<^verbatim>\<open>status_code\<close>, \<^verbatim>\<open>reason_phrase\<close>, \<^verbatim>\<open>dict(headers)\<close>,
  \<^verbatim>\<open>json()\<close> (\<open>None\<close> when it raises) and \<^verbatim>\<open>text\<close>.
\<close>

record http_request =
  req_method :: json
  req_url :: json
  req_headers :: json
  req_content :: json

record response =
  is_success :: bool
  status_code :: int
  reason_phrase :: string
  headers_dict :: "(string \<times> string) list"
  json_body :: "json option"
  text_body :: string

type_synonym transport = "http_request \<Rightarrow> string + response"

text \<open>
  \<^verbatim>\<open>options.get(key, default)\<close>. A JSON value that is not an object became a Python value
  without a \<^verbatim>\<open>get\<close> attribute, and the call raises \<^verbatim>\<open>AttributeError\<close>.
\<close>

definition no_get_attribute :: "string \<Rightarrow> string" where
  "no_get_attribute ty = sq @ ty @ sq @ '' object has no attribute '' @ sq @ ''get'' @ sq"

definition dict_get :: "json \<Rightarrow> string \<Rightarrow> json \<Rightarrow> string + json" where
  "dict_get d k dflt =
     (case d of
        JObj kvs \<Rightarrow> Inr (case map_of kvs k of Some x \<Rightarrow> x | None \<Rightarrow> dflt)
      | JNull \<Rightarrow> Inl (no_get_attribute ''NoneType'')
      | JBool b \<Rightarrow> Inl (no_get_attribute ''bool'')
      | JNum n \<Rightarrow> Inl (no_get_attribute ''int'')
      | JStr s \<Rightarrow> Inl (no_get_attribute ''str'')
      | JArr xs \<Rightarrow> Inl (no_get_attribute ''list''))"

definition success_envelope :: "response \<Rightarrow> json" where
  "success_envelope r =
     JObj [(''ok'', JBool (is_success r)),
           (''status'', JNum (status_code r)),
           (''statusText'', JStr (reason_phrase r)),
           (''headers'', JObj (map (\<lambda>(k, x). (k, JStr x)) (headers_dict r))),
           (''data'', (case json_body r of Some d \<Rightarrow> d | None \<Rightarrow> JStr (text_body r)))]"

definition failure_envelope :: "string \<Rightarrow> json" where
  "failure_envelope e =
     JObj [(''ok'', JBool False),
           (''status'', JNum 0),
           (''statusText'', JStr ''Error''),
           (''headers'', JObj []),
           (''error'', JStr e)]"

text \<open>
  The body of the \<^verbatim>\<open>try\<close> block of \<^verbatim>\<open>perform_fetch\<close>: \<open>Inl\<close> is a raised exception. The
  second component lists the requests handed to the transport (none or one).
\<close>

definition fetch_attempt :: "transport \<Rightarrow> json \<Rightarrow> json \<Rightarrow> (string + json) \<times> http_request list" where
  "fetch_attempt tr u options =
     (case dict_get options ''method'' (JStr ''GET'') of
        Inl e \<Rightarrow> (Inl e, [])
      | Inr m \<Rightarrow>
         (case dict_get options ''headers'' (JObj []) of
            Inl e \<Rightarrow> (Inl e, [])
          | Inr h \<Rightarrow>
             (case dict_get options ''body'' JNull of
                Inl e \<Rightarrow> (Inl e, [])
              | Inr b \<Rightarrow>
                 (let rq = \<lparr>req_method = m, req_url = u, req_headers = h, req_content = b\<rparr> in
                  case tr rq of
                    Inl e \<Rightarrow> (Inl e, [rq])
                  | Inr resp \<Rightarrow> (Inr (success_envelope resp), [rq])))))"

text \<open>
  \<^verbatim>\<open>perform_fetch(url, options)\<close>, identical in both files. Python's \<^verbatim>\<open>None\<close> is \<open>JNull\<close>.
  The result is a sum so that "raises" is a possible value of the model.
\<close>

definition perform_fetch :: "transport \<Rightarrow> json \<Rightarrow> json \<Rightarrow> (string + json) \<times> http_request list" where
  "perform_fetch tr u options0 =
     (let options = (if options0 = JNull then JObj [] else options0) in
      case fetch_attempt tr u options of
        (Inl e, sent) \<Rightarrow> (Inr (failure_envelope e), sent)
      | (Inr env, sent) \<Rightarrow> (Inr env, sent))"

text \<open>
  \<^verbatim>\<open>await asyncio.gather(*tasks)\<close>: every task is started; the results come back in task
  order, and the first task that raised makes the whole await raise.
\<close>

fun collect :: "(string + 'a) list \<Rightarrow> string + 'a list" where
  "collect [] = Inr []"
| "collect (Inl e # rs) = Inl e"
| "collect (Inr x # rs) = (case collect rs of Inl e \<Rightarrow> Inl e | Inr xs \<Rightarrow> Inr (x # xs))"

definition gather :: "((string + 'a) \<times> 'b list) list \<Rightarrow> (string + 'a list) \<times> 'b list" where
  "gather tasks = (collect (map fst tasks), concat (map snd tasks))"

subsection \<open>The scripting engine and the sandbox contexts\<close>

text \<open>
  The V8 engine (\<^verbatim>\<open>MiniRacer\<close>) is an external collaborator. What \<^verbatim>\<open>ctx.eval\<close> gives back to
  Python is either a plain Python value or an opaque \<^verbatim>\<open>JSObject\<close> handle.
\<close>

datatype pyres = Plain json | JSObject nat

datatype hostfn = HttpGet | HttpRequest

datatype reply = NotDefined | Returned "json option"

text \<open>
  One entry of \<^verbatim>\<open>__httpRequests\<close> as Python reads it back through
  \<^verbatim>\<open>json.loads(ctx.eval("JSON.stringify(__httpRequests)"))\<close>. The property \<^verbatim>\<open>url\<close> is absent
  when its value was \<^verbatim>\<open>undefined\<close>. An entry without \<^verbatim>\<open>options\<close> is the same, for both of
  the code's uses (\<^verbatim>\<open>req.get('options')\<close> into \<^verbatim>\<open>perform_fetch\<close>, which turns \<^verbatim>\<open>None\<close> into
  \<^verbatim>\<open>{}\<close>, and \<^verbatim>\<open>req.get('options', {})\<close> into the key), as one whose options are \<^verbatim>\<open>{}\<close>.
\<close>

record traced_call =
  tc_url :: "json option"
  tc_options :: json

text \<open>
  The evaluation of a script is described by what it does at the sandbox boundary. It
  \<^item> finishes with a value, or raises;
  \<^item> calls one of the host functions by name; a name that is not installed is answered
    \<open>NotDefined\<close> (a \<^verbatim>\<open>ReferenceError\<close> in the script, which it may catch);
  \<^item> inspects a host function: it is given the source text of the installed function
    (\<^verbatim>\<open>httpGet.toString()\<close>), or nothing where no such global exists
    (\<^verbatim>\<open>typeof httpRequest\<close>);
  \<^item> reads and rewrites the global \<^verbatim>\<open>__httpRequests\<close> of a first-pass context
    (\<^verbatim>\<open>__httpRequests.push(...)\<close>): it is given the log as it was, or nothing in a context
    without that global;
  \<^item> reads and rewrites the global \<^verbatim>\<open>__httpResults\<close> of a second-pass context likewise.

  The engine's own heap has the abstract type \<open>'c\<close>. Scripts that do not terminate, that
  store something other than objects in the log, that replace the log, the results map, the
  host functions or the built-in \<^verbatim>\<open>JSON.stringify\<close>, or that read the counter
  \<^verbatim>\<open>__httpRequestIndex\<close> (which the standalone file declares in its second-pass contexts and
  never uses) are outside this description.
\<close>

datatype 'c guest =
    Done pyres 'c
  | Raise string 'c
  | Call hostfn "json option" "json option" "reply \<Rightarrow> 'c guest"
  | Inspect hostfn "string option \<Rightarrow> 'c guest"
  | Log "traced_call list \<Rightarrow> traced_call list" "traced_call list option \<Rightarrow> 'c guest"
  | Results "(string \<times> json) list \<Rightarrow> (string \<times> json) list"
      "(string \<times> json) list option \<Rightarrow> 'c guest"

text \<open>
  \<open>boot inputs\<close> is a fresh \<^verbatim>\<open>MiniRacer()\<close> in which \<^verbatim>\<open>var INPUTS = <json.dumps(inputs)>\<close>
  has been evaluated (\<open>Inl\<close> when that raises). \<open>run n heap source\<close> is the evaluation of a
  source string in a context with that heap, where \<open>n\<close> stands for what the clock and the
  random source give during this evaluation (\<^verbatim>\<open>Date.now()\<close>, \<^verbatim>\<open>Math.random()\<close>).
\<close>

record 'c engine =
  boot :: "json \<Rightarrow> string + 'c"
  run :: "nat \<Rightarrow> 'c \<Rightarrow> string \<Rightarrow> 'c guest"

text \<open>
  The host functions as \<^verbatim>\<open>create_context_with_http_support\<close> installs them, with their
  source text as it stands in the two files: in a first-pass context the recording function,
  in a second-pass context the lookup function; the FastAPI file names them
  \<^verbatim>\<open>httpRequest\<close> and adds the alias \<^verbatim>\<open>httpGet\<close>.
\<close>

definition standalone_tracer :: string where
  "standalone_tracer =
     ''function httpGet(url, options) {'' @ [CHR 0x0A]
     @ ''                __httpRequests.push({ url: url, options: options || {} });'' @ [CHR 0x0A]
     @ ''                return undefined;'' @ [CHR 0x0A]
     @ ''            }''"

definition standalone_lookup :: string where
  "standalone_lookup =
     ''function httpGet(url, options) {'' @ [CHR 0x0A]
     @ ''                var key = JSON.stringify({ url: url, options: options || {} });'' @ [CHR 0x0A]
     @ ''                return __httpResults[key];'' @ [CHR 0x0A]
     @ ''            }''"

definition fastapi_tracer :: string where
  "fastapi_tracer =
     ''function httpRequest(url, options) {'' @ [CHR 0x0A]
     @ ''                __httpRequests.push({ url: url, options: options || {} });'' @ [CHR 0x0A]
     @ ''                return undefined;'' @ [CHR 0x0A]
     @ ''            }''"

definition fastapi_alias :: string where
  "fastapi_alias =
     ''function httpGet(url, options) {'' @ [CHR 0x0A]
     @ ''                return httpRequest(url, options);'' @ [CHR 0x0A]
     @ ''            }''"

definition fastapi_lookup :: string where
  "fastapi_lookup =
     ''function httpRequest(url, options) {'' @ [CHR 0x0A]
     @ ''                // Match Python'' @ [CHR 0x27] @ ''s key format with sorted keys'' @ [CHR 0x0A]
     @ ''                var key = JSON.stringify({ '' @ [CHR 0x27] @ ''options'' @ [CHR 0x27] @ '': options || {}, '' @ [CHR 0x27] @ ''url'' @ [CHR 0x27] @ '': url });'' @ [CHR 0x0A]
     @ ''                return __httpResults[key];'' @ [CHR 0x0A]
     @ ''            }''"

datatype pass = FirstPass | SecondPass

definition host_source :: "variant \<Rightarrow> pass \<Rightarrow> hostfn \<Rightarrow> string option" where
  "host_source v p f =
     (case v of
        Standalone \<Rightarrow>
          (case f of
             HttpGet \<Rightarrow> Some (case p of FirstPass \<Rightarrow> standalone_tracer | SecondPass \<Rightarrow> standalone_lookup)
           | HttpRequest \<Rightarrow> None)
      | FastAPI \<Rightarrow>
          (case f of
             HttpGet \<Rightarrow> Some fastapi_alias
           | HttpRequest \<Rightarrow> Some (case p of FirstPass \<Rightarrow> fastapi_tracer | SecondPass \<Rightarrow> fastapi_lookup)))"

text \<open>Both passes install functions of the same names.\<close>

definition installed :: "variant \<Rightarrow> hostfn \<Rightarrow> bool" where
  "installed v f = (case host_source v FirstPass f of None \<Rightarrow> False | Some text \<Rightarrow> True)"

text \<open>\<^verbatim>\<open>__httpRequests.push({ url: url, options: options || {} }); return undefined;\<close>\<close>

definition traced :: "json option \<Rightarrow> json option \<Rightarrow> traced_call" where
  "traced u opts = \<lparr>tc_url = u, tc_options = js_or_empty opts\<rparr>"

text \<open>An evaluation in a first-pass context, from the log as it stands.\<close>

primrec trace_eval ::
  "variant \<Rightarrow> 'c guest \<Rightarrow> traced_call list \<Rightarrow> (string + pyres) \<times> 'c \<times> traced_call list" where
  "trace_eval v (Done r c) log = (Inr r, c, log)"
| "trace_eval v (Raise e c) log = (Inl e, c, log)"
| "trace_eval v (Call f u opts k) log =
     (if installed v f then trace_eval v (k (Returned None)) (log @ [traced u opts])
      else trace_eval v (k NotDefined) log)"
| "trace_eval v (Inspect f k) log = trace_eval v (k (host_source v FirstPass f)) log"
| "trace_eval v (Log change k) log = trace_eval v (k (Some log)) (change log)"
| "trace_eval v (Results change k) log = trace_eval v (k None) log"

text \<open>
  An evaluation in a second-pass context, from the results map as it stands:
  \<^verbatim>\<open>var key = JSON.stringify(...); return __httpResults[key];\<close>
\<close>

primrec replay_eval ::
  "variant \<Rightarrow> 'c guest \<Rightarrow> (string \<times> json) list \<Rightarrow> (string + pyres) \<times> 'c \<times> (string \<times> json) list" where
  "replay_eval v (Done r c) m = (Inr r, c, m)"
| "replay_eval v (Raise e c) m = (Inl e, c, m)"
| "replay_eval v (Call f u opts k) m =
     (if installed v f then replay_eval v (k (Returned (map_of m (js_key v u opts)))) m
      else replay_eval v (k NotDefined) m)"
| "replay_eval v (Inspect f k) m = replay_eval v (k (host_source v SecondPass f)) m"
| "replay_eval v (Log change k) m = replay_eval v (k None) m"
| "replay_eval v (Results change k) m = replay_eval v (k (Some m)) (change m)"

text \<open>
  A context is the engine heap together with what the installed host functions work on:
  the request log in a first-pass context, the results map in a second-pass context.
\<close>

datatype 'c sandbox =
    TraceCtx 'c "traced_call list"
  | ReplayCtx 'c "(string \<times> json) list"

text \<open>
  What a request did besides computing its answer: the number of \<^verbatim>\<open>MiniRacer()\<close> contexts
  created, the guest sources handed to \<^verbatim>\<open>ctx.eval\<close> in order, and the requests handed to
  the transport in order.
\<close>

record effects =
  contexts :: nat
  evaluated :: "string list"
  fetched :: "http_request list"

definition no_effects :: effects where
  "no_effects = \<lparr>contexts = 0, evaluated = [], fetched = []\<rparr>"

definition create_context_with_http_support ::
  "'c engine \<Rightarrow> json \<Rightarrow> (string \<times> json) list option \<Rightarrow> effects \<Rightarrow> (string + 'c sandbox) \<times> effects" where
  "create_context_with_http_support E inputs http_results w =
     (let w' = w\<lparr>contexts := contexts w + 1\<rparr> in
      case boot E inputs of
        Inl e \<Rightarrow> (Inl e, w')
      | Inr c \<Rightarrow>
         (case http_results of
            None \<Rightarrow> (Inr (TraceCtx c []), w')
          | Some m \<Rightarrow> (Inr (ReplayCtx c m), w')))"

text \<open>
  \<^verbatim>\<open>ctx.eval(source)\<close> for a guest source. The clock \<open>ent\<close> gives, for the number of guest
  sources this request has evaluated so far, what the clock and the random source give to
  the next evaluation.
\<close>

type_synonym clock = "nat \<Rightarrow> nat"

definition ctx_eval ::
  "variant \<Rightarrow> 'c engine \<Rightarrow> clock \<Rightarrow> 'c sandbox \<Rightarrow> string \<Rightarrow> effects
     \<Rightarrow> (string + pyres) \<times> 'c sandbox \<times> effects" where
  "ctx_eval v E ent ctx src w =
     (let n = ent (length (evaluated w)); w' = w\<lparr>evaluated := evaluated w @ [src]\<rparr> in
      case ctx of
        TraceCtx c log \<Rightarrow>
          (case trace_eval v (run E n c src) log of (r, c', log') \<Rightarrow> (r, TraceCtx c' log', w'))
      | ReplayCtx c m \<Rightarrow>
          (case replay_eval v (run E n c src) m of (r, c', m') \<Rightarrow> (r, ReplayCtx c' m', w')))"

text \<open>
  \<^verbatim>\<open>json.loads(ctx.eval("JSON.stringify(__httpRequests)"))\<close>; the code reads it from
  first-pass contexts only.
\<close>

definition http_requests_of :: "'c sandbox \<Rightarrow> traced_call list" where
  "http_requests_of ctx = (case ctx of TraceCtx c log \<Rightarrow> log | ReplayCtx c m \<Rightarrow> [])"

subsection \<open>The JSObject block of the FastAPI file\<close>

text \<open>\<^verbatim>\<open>s.replace(c, new)\<close> for a one-character pattern.\<close>

definition replace_char :: "char \<Rightarrow> string \<Rightarrow> string \<Rightarrow> string" where
  "replace_char c new s = concat (map (\<lambda>x. if x = c then new else [x]) s)"

definition backtick :: char where
  "backtick = CHR 0x60"

text \<open>\<^verbatim>\<open>request.code.replace('`', '\\`').replace('$', '\\$')\<close>\<close>

definition escaped_code :: "string \<Rightarrow> string" where
  "escaped_code code =
     replace_char CHR ''$'' [backslash, CHR ''$''] (replace_char backtick [backslash, backtick] code)"

text \<open>The f-string \<^verbatim>\<open>JSON.stringify(eval(`{escaped_code}`))\<close>.\<close>

definition reeval_source :: "string \<Rightarrow> string" where
  "reeval_source code = ''JSON.stringify(eval('' @ [backtick] @ escaped_code code @ [backtick] @ ''))''"

definition py_truthy :: "pyres \<Rightarrow> bool" where
  "py_truthy r = (case r of Plain x \<Rightarrow> py_truthy_json x | JSObject h \<Rightarrow> True)"

text \<open>
  \<^verbatim>\<open>json.loads(result_json)\<close>. The parser of Python's standard library is a parameter
  \<open>loads\<close>; an argument that is not a string raises \<^verbatim>\<open>TypeError\<close>.
\<close>

definition py_json_loads :: "(string \<Rightarrow> string + json) \<Rightarrow> pyres \<Rightarrow> string + json" where
  "py_json_loads loads r =
     (case r of
        Plain (JStr s) \<Rightarrow> loads s
      | _ \<Rightarrow> Inl ''the JSON object must be str, bytes or bytearray'')"

text \<open>
  The block under the comment "Handle JSObject by stringifying via eval", which the FastAPI
  file has twice (after the first pass on \<^verbatim>\<open>ctx\<close>, after the second pass on \<^verbatim>\<open>ctx2\<close>):
  \<^verbatim>\<open>
  if hasattr(result, '__class__') and 'JSObject' in str(type(result)):
      escaped_code = ...
      result_json = ctx.eval(f"JSON.stringify(eval(`{escaped_code}`))")
      result = json.loads(result_json) if result_json else result
  \<close>
\<close>

definition handle_jsobject ::
  "variant \<Rightarrow> 'c engine \<Rightarrow> clock \<Rightarrow> (string \<Rightarrow> string + json) \<Rightarrow> string \<Rightarrow> 'c sandbox \<Rightarrow> pyres
     \<Rightarrow> effects \<Rightarrow> (string + pyres) \<times> 'c sandbox \<times> effects" where
  "handle_jsobject v E ent loads code ctx result w =
     (case result of
        Plain x \<Rightarrow> (Inr result, ctx, w)
      | JSObject h \<Rightarrow>
         (case ctx_eval v E ent ctx (reeval_source code) w of
            (Inl e, ctx', w') \<Rightarrow> (Inl e, ctx', w')
          | (Inr result_json, ctx', w') \<Rightarrow>
              if py_truthy result_json
              then (case py_json_loads loads result_json of
                      Inl e \<Rightarrow> (Inl e, ctx', w')
                    | Inr x \<Rightarrow> (Inr (Plain x), ctx', w'))
              else (Inr result, ctx', w')))"

subsection \<open>\<^verbatim>\<open>execute_code\<close>\<close>

record execute_request =
  code :: json
  inputs :: json

datatype outcome =
    ExecuteResponse pyres
  | HTTPException nat json

text \<open>How the inner \<^verbatim>\<open>try/except/finally\<close> around the first pass ends.\<close>

datatype first_pass_end =
    Return pyres
  | Reraise string
  | Continue "traced_call list"

definition first_pass ::
  "variant \<Rightarrow> 'c engine \<Rightarrow> clock \<Rightarrow> (string \<Rightarrow> string + json) \<Rightarrow> string \<Rightarrow> 'c sandbox \<Rightarrow> effects
     \<Rightarrow> first_pass_end \<times> effects" where
  "first_pass v E ent loads src ctx w =
     (case ctx_eval v E ent ctx src w of
        (Inr result, ctx1, w1) \<Rightarrow>
          (let http_requests = http_requests_of ctx1 in
           if http_requests = [] then
             (case v of
                Standalone \<Rightarrow> (Return result, w1)
              | FastAPI \<Rightarrow>
                 (case handle_jsobject v E ent loads src ctx1 result w1 of
                    (Inr result', ctx2, w2) \<Rightarrow> (Return result', w2)
                  | (Inl e, ctx2, w2) \<Rightarrow>
                     (let http_requests = http_requests_of ctx2 in
                      if http_requests = [] then (Reraise e, w2) else (Continue http_requests, w2))))
           else (Continue http_requests, w1))
      | (Inl e, ctx1, w1) \<Rightarrow>
          (let http_requests = http_requests_of ctx1 in
           if http_requests = [] then (Reraise e, w1) else (Continue http_requests, w1)))"

text \<open>
  The list comprehension \<^verbatim>\<open>[perform_fetch(req['url'], req.get('options')) for req in ...]\<close>
  evaluates its arguments before any task runs; \<^verbatim>\<open>req['url']\<close> raises \<^verbatim>\<open>KeyError\<close> when the
  property is absent.
\<close>

fun call_args :: "traced_call list \<Rightarrow> string + (json \<times> json) list" where
  "call_args [] = Inr []"
| "call_args (r # rs) =
     (case tc_url r of
        None \<Rightarrow> Inl (sq @ ''url'' @ sq)
      | Some u \<Rightarrow>
         (case call_args rs of
            Inl e \<Rightarrow> Inl e
          | Inr as \<Rightarrow> Inr ((u, tc_options r) # as)))"

text \<open>
  \<^verbatim>\<open>for req, result in zip(http_requests, results): http_results[key] = result\<close>; a Python
  dict keeps the position of a key that is assigned again.
\<close>

definition results_map :: "variant \<Rightarrow> ((json \<times> json) \<times> json) list \<Rightarrow> (string \<times> json) list" where
  "results_map v pairs =
     foldl (\<lambda>m ((u, opts), result). AList.update (py_key v u opts) result m) [] pairs"

definition resolve ::
  "variant \<Rightarrow> transport \<Rightarrow> traced_call list \<Rightarrow> effects \<Rightarrow> (string + (string \<times> json) list) \<times> effects" where
  "resolve v tr http_requests w =
     (case call_args http_requests of
        Inl e \<Rightarrow> (Inl e, w)
      | Inr args \<Rightarrow>
         (case gather (map (\<lambda>(u, opts). perform_fetch tr u opts) args) of
            (Inl e, sent) \<Rightarrow> (Inl e, w\<lparr>fetched := fetched w @ sent\<rparr>)
          | (Inr results, sent) \<Rightarrow>
              (Inr (results_map v (zip args results)), w\<lparr>fetched := fetched w @ sent\<rparr>)))"

definition replay ::
  "variant \<Rightarrow> 'c engine \<Rightarrow> clock \<Rightarrow> (string \<Rightarrow> string + json) \<Rightarrow> json \<Rightarrow> string
     \<Rightarrow> (string \<times> json) list \<Rightarrow> effects \<Rightarrow> (string + pyres) \<times> effects" where
  "replay v E ent loads ins src http_results w =
     (case create_context_with_http_support E ins (Some http_results) w of
        (Inl e, w1) \<Rightarrow> (Inl e, w1)
      | (Inr ctx2, w1) \<Rightarrow>
         (case ctx_eval v E ent ctx2 src w1 of
            (Inl e, ctx3, w2) \<Rightarrow> (Inl e, w2)
          | (Inr result, ctx3, w2) \<Rightarrow>
             (case v of
                Standalone \<Rightarrow> (Inr result, w2)
              | FastAPI \<Rightarrow>
                 (case handle_jsobject v E ent loads src ctx3 result w2 of
                    (r, ctx4, w3) \<Rightarrow> (r, w3)))))"

definition resolve_and_replay ::
  "variant \<Rightarrow> 'c engine \<Rightarrow> clock \<Rightarrow> (string \<Rightarrow> string + json) \<Rightarrow> transport \<Rightarrow> json \<Rightarrow> string
     \<Rightarrow> traced_call list \<Rightarrow> effects \<Rightarrow> (string + pyres) \<times> effects" where
  "resolve_and_replay v E ent loads tr ins src http_requests w =
     (case resolve v tr http_requests w of
        (Inl e, w1) \<Rightarrow> (Inl e, w1)
      | (Inr http_results, w1) \<Rightarrow> replay v E ent loads ins src http_results w1)"

text \<open>The outer \<^verbatim>\<open>try\<close> block of \<^verbatim>\<open>execute_code\<close>.\<close>

definition execute_try ::
  "variant \<Rightarrow> 'c engine \<Rightarrow> clock \<Rightarrow> (string \<Rightarrow> string + json) \<Rightarrow> transport \<Rightarrow> json \<Rightarrow> string
     \<Rightarrow> (string + pyres) \<times> effects" where
  "execute_try v E ent loads tr ins src =
     (case create_context_with_http_support E ins None no_effects of
        (Inl e, w) \<Rightarrow> (Inl e, w)
      | (Inr ctx, w) \<Rightarrow>
         (case first_pass v E ent loads src ctx w of
            (Return result, w1) \<Rightarrow> (Inr result, w1)
          | (Reraise e, w1) \<Rightarrow> (Inl e, w1)
          | (Continue http_requests, w1) \<Rightarrow>
              resolve_and_replay v E ent loads tr ins src http_requests w1))"

text \<open>\<^verbatim>\<open>not request.code or not isinstance(request.code, str)\<close>\<close>

definition invalid_code :: "json \<Rightarrow> bool" where
  "invalid_code c = (\<not> py_truthy_json c \<or> (case c of JStr s \<Rightarrow> False | _ \<Rightarrow> True))"

definition code_source :: "json \<Rightarrow> string" where
  "code_source c = (case c of JStr s \<Rightarrow> s | _ \<Rightarrow> [])"

text \<open>\<^verbatim>\<open>detail={"error": "Execution failed", "message": str(e)}\<close>\<close>

definition execution_failed :: "string \<Rightarrow> json" where
  "execution_failed e = JObj [(''error'', JStr ''Execution failed''), (''message'', JStr e)]"

definition execute_code ::
  "variant \<Rightarrow> 'c engine \<Rightarrow> clock \<Rightarrow> (string \<Rightarrow> string + json) \<Rightarrow> transport \<Rightarrow> execute_request
     \<Rightarrow> outcome \<times> effects" where
  "execute_code v E ent loads tr request =
     (if invalid_code (code request)
      then (HTTPException 400 (JStr ''Invalid code parameter''), no_effects)
      else
        (case execute_try v E ent loads tr (inputs request) (code_source (code request)) of
           (Inl e, w) \<Rightarrow> (HTTPException 500 (execution_failed e), w)
         | (Inr result, w) \<Rightarrow> (ExecuteResponse result, w)))"

subsection \<open>The requests a resolution phase dispatches\<close>

text \<open>
  The requests that the tasks built from a trace log hand to the transport, in task order;
  none when building the tasks raises.
\<close>

definition sent_of :: "transport \<Rightarrow> traced_call list \<Rightarrow> http_request list" where
  "sent_of tr log =
     (case call_args log of
        Inl e \<Rightarrow> []
      | Inr args \<Rightarrow> concat (map (\<lambda>(u, opts). snd (perform_fetch tr u opts)) args))"

subsection \<open>What a script does during the first pass\<close>

text \<open>
  The number of times the evaluation of a script in a first-pass context enters an installed
  interception function.
\<close>

primrec interception_calls :: "variant \<Rightarrow> 'c guest \<Rightarrow> traced_call list \<Rightarrow> nat" where
  "interception_calls v (Done r c) log = 0"
| "interception_calls v (Raise e c) log = 0"
| "interception_calls v (Call f u opts k) log =
     (if installed v f then Suc (interception_calls v (k (Returned None)) (log @ [traced u opts]))
      else interception_calls v (k NotDefined) log)"
| "interception_calls v (Inspect f k) log = interception_calls v (k (host_source v FirstPass f)) log"
| "interception_calls v (Log change k) log = interception_calls v (k (Some log)) (change log)"
| "interception_calls v (Results change k) log = interception_calls v (k None) log"


subsection \<open>Values on which the two serialisers agree\<close>

text \<open>
  A string without characters from U+007F on. A key that V8 takes for an array index (such
  keys are enumerated first and in numeric order, whatever the order of writing); every
  key made of digits only is counted as one here. A JSON value is canonical when its numbers
  are integers that a JavaScript number holds exactly, its strings and keys are plain, and
  every object lists its keys, none of them index-like, in strictly ascending order.
\<close>

definition plain_string :: "string \<Rightarrow> bool" where
  "plain_string s = (\<forall>c \<in> set s. (of_char c :: nat) < 127)"

definition index_like :: "string \<Rightarrow> bool" where
  "index_like k = (k \<noteq> [] \<and> (\<forall>c \<in> set k. c \<in> set ''0123456789''))"

primrec canonical :: "json \<Rightarrow> bool" where
  "canonical JNull = True"
| "canonical (JBool b) = True"
| "canonical (JNum n) = (\<bar>n\<bar> \<le> 9007199254740991)"
| "canonical (JStr s) = plain_string s"
| "canonical (JArr xs) = (\<forall>b \<in> set (map canonical xs). b)"
| "canonical (JObj kvs) =
     (sorted_wrt (<) (map fst kvs)
      \<and> (\<forall>(k, b) \<in> set (map (map_prod id canonical) kvs). plain_string k \<and> \<not> index_like k \<and> b))"

section \<open>Example scripts, engine and transport\<close>

text \<open>
  A small engine for concrete runs. Its heap is the value bound to \<^verbatim>\<open>INPUTS\<close>. It knows the
  boundary behaviour of a handful of scripts (those of the repository's benchmark and tests,
  with the literals moved into \<^verbatim>\<open>INPUTS\<close>, and a few more) on the inputs used below; every
  other source is taken to be a syntax error. Error messages are abbreviated.
\<close>

definition field :: "string \<Rightarrow> json \<Rightarrow> json option" where
  "field k v = (case v of JObj kvs \<Rightarrow> map_of kvs k | _ \<Rightarrow> None)"

text \<open>The source that re-evaluates a script whose text is already escaped.\<close>

definition stringify_eval :: "string \<Rightarrow> string" where
  "stringify_eval escaped = ''JSON.stringify(eval('' @ [CHR 0x60] @ escaped @ [CHR 0x60] @ ''))''"

definition script_sum :: string where
  "script_sum = ''INPUTS.x + INPUTS.y''"

definition script_title :: string where
  "script_title = ''httpGet(INPUTS.u).data.title''"

definition script_twice :: string where
  "script_twice = ''httpGet(INPUTS.u); httpGet(INPUTS.u).status''"

definition script_post :: string where
  "script_post = ''httpGet(INPUTS.u, INPUTS.o).status''"

definition script_object :: string where
  "script_object = ''({a: 1})''"

definition script_typeof :: string where
  "script_typeof = ''typeof httpRequest''"

definition script_length :: string where
  "script_length = ''httpGet.toString().length''"

definition script_envelope :: string where
  "script_envelope = ''httpGet(INPUTS.u)''"

definition script_opaque :: string where
  "script_opaque = ''({toJSON(){}})''"

text \<open>\<^verbatim>\<open>({a: `$`})\<close>, and the same text with backticks and dollar signs escaped.\<close>

definition script_template :: string where
  "script_template = ''({a: '' @ [CHR 0x60] @ ''$'' @ [CHR 0x60] @ ''})''"

definition escaped_template :: string where
  "escaped_template =
     ''({a: '' @ [CHR 0x5C, CHR 0x60] @ [CHR 0x5C] @ ''$'' @ [CHR 0x5C, CHR 0x60] @ ''})''"

text \<open>A script that reads the clock.\<close>

definition script_now :: string where
  "script_now = ''Date.now()''"

text \<open>A script that writes an entry into the request log itself and calls nothing.\<close>

definition script_push :: string where
  "script_push = ''__httpRequests.push({url: INPUTS.u, options: {}}); 42''"

text \<open>
  A script that yields an object the first time it runs in a context and raises from then
  on.
\<close>

definition script_once :: string where
  "script_once = ''if (INPUTS.seen) throw new Error(INPUTS.seen); INPUTS.seen = 1; ({a: 1})''"

definition type_error :: string where
  "type_error = ''TypeError: Cannot read properties of undefined''"

definition reference_error :: "string \<Rightarrow> string" where
  "reference_error name = ''ReferenceError: '' @ name @ '' is not defined''"

definition read_status :: "json \<Rightarrow> reply \<Rightarrow> json guest" where
  "read_status c r =
     (case r of
        Returned (Some env) \<Rightarrow> (case field ''status'' env of Some x \<Rightarrow> Done (Plain x) c | None \<Rightarrow> Done (Plain JNull) c)
      | _ \<Rightarrow> Raise type_error c)"

definition read_title :: "json \<Rightarrow> reply \<Rightarrow> json guest" where
  "read_title c r =
     (case r of
        Returned (Some env) \<Rightarrow>
          (case field ''data'' env of
             Some d \<Rightarrow> (case field ''title'' d of Some x \<Rightarrow> Done (Plain x) c | None \<Rightarrow> Done (Plain JNull) c)
           | None \<Rightarrow> Raise type_error c)
      | _ \<Rightarrow> Raise type_error c)"

text \<open>
  \<^verbatim>\<open>httpGet(INPUTS.u)\<close> evaluates to the envelope object (an opaque handle for Python) when
  the call is answered and to \<^verbatim>\<open>undefined\<close> otherwise; under \<^verbatim>\<open>JSON.stringify\<close> the
  envelope becomes its JSON text.
\<close>

definition read_envelope :: "bool \<Rightarrow> json \<Rightarrow> reply \<Rightarrow> json guest" where
  "read_envelope stringified c r =
     (case r of
        Returned (Some env) \<Rightarrow>
          if stringified then Done (Plain (JStr (js_stringify env))) c else Done (JSObject 1) c
      | _ \<Rightarrow> Done (Plain JNull) c)"

text \<open>The heap after \<^verbatim>\<open>INPUTS.seen = 1\<close>.\<close>

definition mark_seen :: "json \<Rightarrow> json" where
  "mark_seen c = (case c of JObj kvs \<Rightarrow> JObj (AList.update ''seen'' (JNum 1) kvs) | _ \<Rightarrow> c)"

definition run_once :: "bool \<Rightarrow> json \<Rightarrow> json guest" where
  "run_once stringified c =
     (if (case field ''seen'' c of Some x \<Rightarrow> js_truthy x | None \<Rightarrow> False) then Raise ''Error: 1'' c
      else if stringified then Done (Plain (JStr (''{'' @ dq @ ''a'' @ dq @ '':1}''))) (mark_seen c)
      else Done (JSObject 4) (mark_seen c))"

definition demo_run :: "nat \<Rightarrow> json \<Rightarrow> string \<Rightarrow> json guest" where
  "demo_run n c src =
     (if src = script_sum then
        (case (field ''x'' c, field ''y'' c) of
           (Some (JNum a), Some (JNum b)) \<Rightarrow> Done (Plain (JNum (a + b))) c
         | _ \<Rightarrow> Raise ''inputs outside the examples'' c)
      else if src = script_title then Call HttpGet (field ''u'' c) None (read_title c)
      else if src = script_twice then
        Call HttpGet (field ''u'' c) None (\<lambda>r. Call HttpGet (field ''u'' c) None (read_status c))
      else if src = script_post then
        Call HttpGet (field ''u'' c) (field ''o'' c) (read_status c)
      else if src = script_object then Done (JSObject 0) c
      else if src = stringify_eval script_object then
        Done (Plain (JStr (''{'' @ dq @ ''a'' @ dq @ '':1}''))) c
      else if src = script_typeof then
        Inspect HttpRequest
          (\<lambda>s. Done (Plain (JStr (case s of None \<Rightarrow> ''undefined'' | Some text \<Rightarrow> ''function''))) c)
      else if src = script_length then
        Inspect HttpGet
          (\<lambda>s. case s of
                  None \<Rightarrow> Raise (reference_error ''httpGet'') c
                | Some text \<Rightarrow> Done (Plain (JNum (int (length text)))) c)
      else if src = script_envelope then Call HttpGet (field ''u'' c) None (read_envelope False c)
      else if src = stringify_eval script_envelope then
        Call HttpGet (field ''u'' c) None (read_envelope True c)
      else if src = script_opaque then Done (JSObject 2) c
      else if src = stringify_eval script_opaque then Done (Plain JNull) c
      else if src = script_template then Done (JSObject 3) c
      else if src = stringify_eval escaped_template then
        Done (Plain (JStr (''{'' @ dq @ ''a'' @ dq @ '':'' @ dq @ ''$'' @ dq @ ''}''))) c
      else if src = script_now then Done (Plain (JNum (int n))) c
      else if src = script_push then
        Log (\<lambda>log. log @ [\<lparr>tc_url = field ''u'' c, tc_options = JObj []\<rparr>])
          (\<lambda>l. case l of
                  None \<Rightarrow> Raise (reference_error ''__httpRequests'') c
                | Some log \<Rightarrow> Done (Plain (JNum 42)) c)
      else if src = script_once then run_once False c
      else if src = stringify_eval script_once then run_once True c
      else Raise ''SyntaxError: Unexpected end of input'' c)"

definition demo_engine :: "json engine" where
  "demo_engine = \<lparr>boot = Inr, run = demo_run\<rparr>"

definition todo_url :: json where
  "todo_url = JStr ''http://wiremock:8080/api/todos/1''"

definition todo_response :: response where
  "todo_response =
     \<lparr>is_success = True, status_code = 200, reason_phrase = ''OK'', headers_dict = [],
      json_body = Some (JObj [(''title'', JStr ''Sample Todo 1'')]), text_body = []\<rparr>"

definition demo_transport :: transport where
  "demo_transport rq =
     (if req_url rq = todo_url then Inr todo_response else Inl ''All connection attempts failed'')"

text \<open>
  A second transport: it answers the \<^verbatim>\<open>GET\<close> of the example target as the first one does
  and refuses everything else.
\<close>

definition offline_transport :: transport where
  "offline_transport rq =
     (if req_url rq = todo_url \<and> req_method rq = JStr ''GET'' then Inr todo_response
      else Inl ''Connection refused'')"

text \<open>A parser that knows the JSON texts the example scripts produce.\<close>

definition demo_loads :: "string \<Rightarrow> string + json" where
  "demo_loads s =
     (if s = ''{'' @ dq @ ''a'' @ dq @ '':1}'' then Inr (JObj [(''a'', JNum 1)])
      else if s = ''{'' @ dq @ ''a'' @ dq @ '':'' @ dq @ ''$'' @ dq @ ''}'' then Inr (JObj [(''a'', JStr ''$'')])
      else if s = js_stringify (success_envelope todo_response) then Inr (success_envelope todo_response)
      else Inl ''Expecting value'')"

text \<open>Two clocks.\<close>

definition early :: clock where
  "early n = 1000 + n"

definition late :: clock where
  "late n = 2000 + n"

text \<open>
  The options of the POST example in \<^verbatim>\<open>tests/test_execute.py\<close>:
  \<^verbatim>\<open>{method: 'POST', headers: {'Content-Type': 'application/json'}, body: '{"test":true}'}\<close>.
\<close>

definition post_options :: json where
  "post_options =
     JObj [(''method'', JStr ''POST''),
           (''headers'', JObj [(''Content-Type'', JStr ''application/json'')]),
           (''body'', JStr (''{'' @ dq @ ''test'' @ dq @ '':true}''))]"

definition inputs_u :: json where
  "inputs_u = JObj [(''u'', todo_url), (''o'', post_options)]"

section \<open>Unfolding the orchestrator\<close>

text \<open>
  The steps of \<^verbatim>\<open>execute_code\<close> for a request that passes validation, one lemma per
  branch of the first pass.
\<close>

lemma execute_code_valid:
  assumes "code request = JStr src" "src \<noteq> []"
  shows "execute_code v E ent loads tr request =
    (case execute_try v E ent loads tr (inputs request) src of
       (Inl e, w) \<Rightarrow> (HTTPException 500 (execution_failed e), w)
     | (Inr result, w) \<Rightarrow> (ExecuteResponse result, w))"
  using assms by (simp add: execute_code_def invalid_code_def py_truthy_json_def code_source_def)

lemma execute_try_booted:
  assumes "boot E ins = Inr c0"
  shows "execute_try v E ent loads tr ins src =
    (case first_pass v E ent loads src (TraceCtx c0 []) \<lparr>contexts = 1, evaluated = [], fetched = []\<rparr> of
       (Return result, w1) \<Rightarrow> (Inr result, w1)
     | (Reraise e, w1) \<Rightarrow> (Inl e, w1)
     | (Continue http_requests, w1) \<Rightarrow> resolve_and_replay v E ent loads tr ins src http_requests w1)"
  using assms by (simp add: execute_try_def create_context_with_http_support_def no_effects_def)

lemma first_pass_raised:
  assumes "trace_eval v (run E (ent 0) c0 src) [] = (Inl e, c1, log)" and "evaluated w = []"
  shows "first_pass v E ent loads src (TraceCtx c0 []) w =
    (if log = [] then Reraise e else Continue log, w\<lparr>evaluated := [src]\<rparr>)"
  using assms by (simp add: first_pass_def ctx_eval_def http_requests_of_def)

lemma first_pass_traced:
  assumes "trace_eval v (run E (ent 0) c0 src) [] = (r, c1, log)" and "log \<noteq> []"
    and "evaluated w = []"
  shows "first_pass v E ent loads src (TraceCtx c0 []) w = (Continue log, w\<lparr>evaluated := [src]\<rparr>)"
  using assms by (cases r) (simp_all add: first_pass_def ctx_eval_def http_requests_of_def)

lemma first_pass_plain:
  assumes "trace_eval v (run E (ent 0) c0 src) [] = (Inr result, c1, [])"
    and "v = Standalone \<or> (\<exists>x. result = Plain x)"
    and "evaluated w = []"
  shows "first_pass v E ent loads src (TraceCtx c0 []) w = (Return result, w\<lparr>evaluated := [src]\<rparr>)"
  using assms
  by (cases v) (auto simp: first_pass_def ctx_eval_def http_requests_of_def handle_jsobject_def)

text \<open>The source of the re-evaluation, character by character.\<close>

lemma reeval_source_text:
  "reeval_source src =
     ''JSON.stringify(eval('' @ [CHR 0x60]
       @ concat (map (\<lambda>c. if c = CHR 0x60 then [CHR 0x5C, CHR 0x60]
                          else if c = CHR ''$'' then [CHR 0x5C, CHR ''$''] else [c]) src)
       @ [CHR 0x60] @ ''))''"
proof -
  have "escaped_code src =
      concat (map (\<lambda>c. if c = CHR 0x60 then [CHR 0x5C, CHR 0x60]
                        else if c = CHR ''$'' then [CHR 0x5C, CHR ''$''] else [c]) src)"
    by (induction src) (simp_all add: escaped_code_def replace_char_def backtick_def backslash_def)
  then show ?thesis
    by (simp add: reeval_source_def backtick_def)
qed

section \<open>Request validation\<close>

text \<open>
  Claim C5. A request whose \<^verbatim>\<open>code\<close> is the empty string, or is not a string at all, is
  answered with the client-fault error 400 ("Invalid code parameter"), and nothing has
  happened by then: no sandbox context was created, nothing was evaluated, nothing was
  fetched.
\<close>

theorem invalid_code_rejected:
  assumes "code request = JStr [] \<or> (\<forall>s. code request \<noteq> JStr s)"
  shows "execute_code v E ent loads tr request =
           (HTTPException 400 (JStr ''Invalid code parameter''),
            \<lparr>contexts = 0, evaluated = [], fetched = []\<rparr>)"
proof -
  have "invalid_code (code request)"
    using assms by (cases "code request") (auto simp: invalid_code_def py_truthy_json_def)
  then show ?thesis
    by (simp add: execute_code_def no_effects_def)
qed

theorem invalid_code_rejected_witness:
  "code \<lparr>code = JStr [], inputs = JObj []\<rparr> = JStr []
   \<and> execute_code FastAPI demo_engine early demo_loads demo_transport \<lparr>code = JStr [], inputs = JObj []\<rparr> =
       (HTTPException 400 (JStr ''Invalid code parameter''),
        \<lparr>contexts = 0, evaluated = [], fetched = []\<rparr>)
   \<and> execute_code Standalone demo_engine early demo_loads demo_transport \<lparr>code = JNum 7, inputs = JObj []\<rparr> =
       (HTTPException 400 (JStr ''Invalid code parameter''),
        \<lparr>contexts = 0, evaluated = [], fetched = []\<rparr>)"
proof -
  have h1: "code \<lparr>code = JStr [], inputs = JObj []\<rparr> = JStr []
      \<or> (\<forall>s. code \<lparr>code = JStr [], inputs = JObj []\<rparr> \<noteq> JStr s)"
    by simp
  have h2: "code \<lparr>code = JNum 7, inputs = JObj []\<rparr> = JStr []
      \<or> (\<forall>s. code \<lparr>code = JNum 7, inputs = JObj []\<rparr> \<noteq> JStr s)"
    by simp
  show ?thesis
    using invalid_code_rejected [OF h1, of FastAPI demo_engine early demo_loads demo_transport]
      invalid_code_rejected [OF h2, of Standalone demo_engine early demo_loads demo_transport]
    by simp
qed

section \<open>The fast path\<close>

text \<open>
  Claim C3, as amended. What the code tests is the request log, not the calls: when the
  first pass succeeds and leaves the request log empty, and its result is a plain value (in
  the standalone file: any result), the request is answered with that very result; one
  context was created, the code was evaluated once and nothing was fetched. The claim as the
  specification states it (zero interception calls, any result) fails, see the
  counterexample below.
\<close>

theorem fast_path_plain:
  assumes "code request = JStr src" and "src \<noteq> []"
    and "boot E (inputs request) = Inr c0"
    and "trace_eval v (run E (ent 0) c0 src) [] = (Inr result, c1, [])"
    and "v = Standalone \<or> (\<exists>x. result = Plain x)"
  shows "execute_code v E ent loads tr request =
    (ExecuteResponse result, \<lparr>contexts = 1, evaluated = [src], fetched = []\<rparr>)"
  by (simp add: execute_code_valid [OF assms(1,2)] execute_try_booted [OF assms(3)]
      first_pass_plain [where ent = ent, OF assms(4,5)])

theorem fast_path_plain_witness:
  "execute_code FastAPI demo_engine early demo_loads demo_transport
       \<lparr>code = JStr script_sum, inputs = JObj [(''x'', JNum 20), (''y'', JNum 22)]\<rparr> =
     (ExecuteResponse (Plain (JNum 42)), \<lparr>contexts = 1, evaluated = [script_sum], fetched = []\<rparr>)
   \<and> execute_code Standalone demo_engine early demo_loads demo_transport
       \<lparr>code = JStr script_object, inputs = JObj []\<rparr> =
     (ExecuteResponse (JSObject 0), \<lparr>contexts = 1, evaluated = [script_object], fetched = []\<rparr>)"
proof -
  have t1: "trace_eval FastAPI (run demo_engine (early 0) (JObj [(''x'', JNum 20), (''y'', JNum 22)]) script_sum) []
      = (Inr (Plain (JNum 42)), JObj [(''x'', JNum 20), (''y'', JNum 22)], [])"
    by code_simp
  have t2: "trace_eval Standalone (run demo_engine (early 0) (JObj []) script_object) []
      = (Inr (JSObject 0), JObj [], [])"
    by code_simp
  have b: "boot demo_engine (inputs \<lparr>code = JStr c, inputs = i\<rparr>) = Inr i" for c i
    by (simp add: demo_engine_def)
  have c: "code \<lparr>code = JStr c, inputs = i\<rparr> = JStr c" for c i
    by simp
  have n1: "script_sum \<noteq> []" and n2: "script_object \<noteq> []"
    by (simp_all add: script_sum_def script_object_def)
  have p1: "FastAPI = Standalone \<or> (\<exists>x. Plain (JNum 42) = Plain x)"
    by simp
  have p2: "Standalone = Standalone \<or> (\<exists>x. JSObject 0 = Plain x)"
    by simp
  have 1: "execute_code FastAPI demo_engine early demo_loads demo_transport
       \<lparr>code = JStr script_sum, inputs = JObj [(''x'', JNum 20), (''y'', JNum 22)]\<rparr> =
     (ExecuteResponse (Plain (JNum 42)), \<lparr>contexts = 1, evaluated = [script_sum], fetched = []\<rparr>)"
    by (rule fast_path_plain [where ent = early and loads = demo_loads and tr = demo_transport, OF c n1 b t1 p1])
  have 2: "execute_code Standalone demo_engine early demo_loads demo_transport
       \<lparr>code = JStr script_object, inputs = JObj []\<rparr> =
     (ExecuteResponse (JSObject 0), \<lparr>contexts = 1, evaluated = [script_object], fetched = []\<rparr>)"
    by (rule fast_path_plain [where ent = early and loads = demo_loads and tr = demo_transport, OF c n2 b t2 p2])
  from 1 2 show ?thesis by (rule conjI)
qed

text \<open>
  The counterexamples to claim C3 as stated. In the FastAPI file the script \<^verbatim>\<open>({a: 1})\<close>
  makes no interception call and its first evaluation succeeds with an opaque object; the
  answer is not that object but the parsed JSON text of a second evaluation of the code in
  the same context. In both files the script
  \<^verbatim>\<open>__httpRequests.push({url: INPUTS.u, options: {}}); 42\<close> makes no interception call and
  its first evaluation succeeds with 42; the log is not empty, so a request is dispatched,
  a second context is created, and the code is evaluated again there, where it raises
  because that context has no \<^verbatim>\<open>__httpRequests\<close>: the request ends in error 500.
\<close>

theorem fast_path_counterexample:
  "interception_calls FastAPI (run demo_engine (early 0) (JObj []) script_object) [] = 0
   \<and> trace_eval FastAPI (run demo_engine (early 0) (JObj []) script_object) [] =
       (Inr (JSObject 0), JObj [], [])
   \<and> execute_code FastAPI demo_engine early demo_loads demo_transport
          \<lparr>code = JStr script_object, inputs = JObj []\<rparr> =
       (ExecuteResponse (Plain (JObj [(''a'', JNum 1)])),
        \<lparr>contexts = 1, evaluated = [script_object, stringify_eval script_object], fetched = []\<rparr>)
   \<and> interception_calls Standalone (run demo_engine (early 0) inputs_u script_push) [] = 0
   \<and> interception_calls FastAPI (run demo_engine (early 0) inputs_u script_push) [] = 0
   \<and> fst (trace_eval Standalone (run demo_engine (early 0) inputs_u script_push) []) =
       Inr (Plain (JNum 42))
   \<and> fst (trace_eval FastAPI (run demo_engine (early 0) inputs_u script_push) []) =
       Inr (Plain (JNum 42))
   \<and> execute_code Standalone demo_engine early demo_loads demo_transport
          \<lparr>code = JStr script_push, inputs = inputs_u\<rparr> =
       (HTTPException 500
          (JObj [(''error'', JStr ''Execution failed''),
                 (''message'', JStr ''ReferenceError: __httpRequests is not defined'')]),
        \<lparr>contexts = 2, evaluated = [script_push, script_push],
          fetched = [\<lparr>req_method = JStr ''GET'', req_url = todo_url, req_headers = JObj [],
                      req_content = JNull\<rparr>]\<rparr>)
   \<and> execute_code FastAPI demo_engine early demo_loads demo_transport
          \<lparr>code = JStr script_push, inputs = inputs_u\<rparr> =
       (HTTPException 500
          (JObj [(''error'', JStr ''Execution failed''),
                 (''message'', JStr ''ReferenceError: __httpRequests is not defined'')]),
        \<lparr>contexts = 2, evaluated = [script_push, script_push],
          fetched = [\<lparr>req_method = JStr ''GET'', req_url = todo_url, req_headers = JObj [],
                      req_content = JNull\<rparr>]\<rparr>)"
  by code_simp

section \<open>A raise during the first pass\<close>

text \<open>
  Claim C4. If the first evaluation raises and no call was traced, the request fails with
  error 500 carrying the message of the raise. If calls were traced, then whether the first
  evaluation raised or succeeded makes no difference: the answer is that of the resolution
  phase over the traced calls followed by the replay pass (error 500 with the message if one
  of them raises).
\<close>

theorem trace_raise_policy:
  assumes "code request = JStr src" and "src \<noteq> []"
    and "boot E (inputs request) = Inr c0"
    and "trace_eval v (run E (ent 0) c0 src) [] = (r, c1, log)"
  shows "(log = [] \<and> r = Inl e \<longrightarrow>
           execute_code v E ent loads tr request =
             (HTTPException 500 (JObj [(''error'', JStr ''Execution failed''), (''message'', JStr e)]),
              \<lparr>contexts = 1, evaluated = [src], fetched = []\<rparr>))
       \<and> (log \<noteq> [] \<longrightarrow>
           (case resolve v tr log \<lparr>contexts = 1, evaluated = [src], fetched = []\<rparr> of
              (Inl e', w) \<Rightarrow>
                execute_code v E ent loads tr request =
                  (HTTPException 500 (JObj [(''error'', JStr ''Execution failed''), (''message'', JStr e')]), w)
            | (Inr http_results, w) \<Rightarrow>
                execute_code v E ent loads tr request =
                  (case replay v E ent loads (inputs request) src http_results w of
                     (Inl e', w') \<Rightarrow>
                       (HTTPException 500
                          (JObj [(''error'', JStr ''Execution failed''), (''message'', JStr e')]), w')
                   | (Inr result, w') \<Rightarrow> (ExecuteResponse result, w'))))"
proof (intro conjI impI)
  assume "log = [] \<and> r = Inl e"
  then have "trace_eval v (run E (ent 0) c0 src) [] = (Inl e, c1, [])"
    using assms(4) by simp
  from first_pass_raised [where ent = ent, OF this]
  show "execute_code v E ent loads tr request =
             (HTTPException 500 (JObj [(''error'', JStr ''Execution failed''), (''message'', JStr e)]),
              \<lparr>contexts = 1, evaluated = [src], fetched = []\<rparr>)"
    by (simp add: execute_code_valid [OF assms(1,2)] execute_try_booted [OF assms(3)]
        execution_failed_def)
next
  assume "log \<noteq> []"
  then show "case resolve v tr log \<lparr>contexts = 1, evaluated = [src], fetched = []\<rparr> of
              (Inl e', w) \<Rightarrow>
                execute_code v E ent loads tr request =
                  (HTTPException 500 (JObj [(''error'', JStr ''Execution failed''), (''message'', JStr e')]), w)
            | (Inr http_results, w) \<Rightarrow>
                execute_code v E ent loads tr request =
                  (case replay v E ent loads (inputs request) src http_results w of
                     (Inl e', w') \<Rightarrow>
                       (HTTPException 500
                          (JObj [(''error'', JStr ''Execution failed''), (''message'', JStr e')]), w')
                   | (Inr result, w') \<Rightarrow> (ExecuteResponse result, w'))"
    by (simp add: execute_code_valid [OF assms(1,2)] execute_try_booted [OF assms(3)]
        first_pass_traced [where ent = ent, OF assms(4)] resolve_and_replay_def execution_failed_def
        split: prod.splits sum.splits)
qed

theorem trace_raise_policy_witness:
  "trace_eval FastAPI (run demo_engine (early 0) inputs_u ''foo('') [] =
       (Inl ''SyntaxError: Unexpected end of input'', inputs_u, [])
   \<and> execute_code FastAPI demo_engine early demo_loads demo_transport \<lparr>code = JStr ''foo('', inputs = inputs_u\<rparr> =
       (HTTPException 500
          (JObj [(''error'', JStr ''Execution failed''),
                 (''message'', JStr ''SyntaxError: Unexpected end of input'')]),
        \<lparr>contexts = 1, evaluated = [''foo(''], fetched = []\<rparr>)
   \<and> trace_eval FastAPI (run demo_engine (early 0) inputs_u script_title) [] =
       (Inl type_error, inputs_u, [traced (Some todo_url) None])
   \<and> fst (execute_code FastAPI demo_engine early demo_loads demo_transport
          \<lparr>code = JStr script_title, inputs = inputs_u\<rparr>) = ExecuteResponse (Plain (JStr ''Sample Todo 1''))"
proof -
  have t1: "trace_eval FastAPI (run demo_engine (early 0) inputs_u ''foo('') [] =
       (Inl ''SyntaxError: Unexpected end of input'', inputs_u, [])"
    by code_simp
  have t2: "trace_eval FastAPI (run demo_engine (early 0) inputs_u script_title) [] =
       (Inl type_error, inputs_u, [traced (Some todo_url) None])"
    by code_simp
  have b: "boot demo_engine (inputs \<lparr>code = JStr c, inputs = inputs_u\<rparr>) = Inr inputs_u" for c
    by (simp add: demo_engine_def)
  have 1: "execute_code FastAPI demo_engine early demo_loads demo_transport \<lparr>code = JStr ''foo('', inputs = inputs_u\<rparr> =
       (HTTPException 500
          (JObj [(''error'', JStr ''Execution failed''),
                 (''message'', JStr ''SyntaxError: Unexpected end of input'')]),
        \<lparr>contexts = 1, evaluated = [''foo(''], fetched = []\<rparr>)"
    using trace_raise_policy [where ent = early, OF _ _ b t1, where loads = demo_loads and tr = demo_transport
        and e = "''SyntaxError: Unexpected end of input''"]
    by simp
  have r: "resolve FastAPI demo_transport [traced (Some todo_url) None]
             \<lparr>contexts = 1, evaluated = [script_title], fetched = []\<rparr> =
           (Inr [(py_key FastAPI todo_url (JObj []),
                  success_envelope \<lparr>is_success = True, status_code = 200, reason_phrase = ''OK'',
                    headers_dict = [], json_body = Some (JObj [(''title'', JStr ''Sample Todo 1'')]),
                    text_body = []\<rparr>)],
            \<lparr>contexts = 1, evaluated = [script_title],
              fetched = [\<lparr>req_method = JStr ''GET'', req_url = todo_url, req_headers = JObj [],
                          req_content = JNull\<rparr>]\<rparr>)"
    by code_simp
  have p: "replay FastAPI demo_engine early demo_loads inputs_u script_title
             [(py_key FastAPI todo_url (JObj []),
                  success_envelope \<lparr>is_success = True, status_code = 200, reason_phrase = ''OK'',
                    headers_dict = [], json_body = Some (JObj [(''title'', JStr ''Sample Todo 1'')]),
                    text_body = []\<rparr>)]
            \<lparr>contexts = 1, evaluated = [script_title],
              fetched = [\<lparr>req_method = JStr ''GET'', req_url = todo_url, req_headers = JObj [],
                          req_content = JNull\<rparr>]\<rparr> =
           (Inr (Plain (JStr ''Sample Todo 1'')),
            \<lparr>contexts = 2, evaluated = [script_title, script_title],
              fetched = [\<lparr>req_method = JStr ''GET'', req_url = todo_url, req_headers = JObj [],
                          req_content = JNull\<rparr>]\<rparr>)"
    by code_simp
  have ne: "script_title \<noteq> []" by (simp add: script_title_def)
  have c: "code \<lparr>code = JStr script_title, inputs = inputs_u\<rparr> = JStr script_title" by simp
  have l: "[traced (Some todo_url) None] \<noteq> []" by simp
  have i: "inputs \<lparr>code = JStr script_title, inputs = inputs_u\<rparr> = inputs_u" by simp
  have 2: "fst (execute_code FastAPI demo_engine early demo_loads demo_transport
          \<lparr>code = JStr script_title, inputs = inputs_u\<rparr>) = ExecuteResponse (Plain (JStr ''Sample Todo 1''))"
    using mp [OF conjunct2 [OF trace_raise_policy [where ent = early, OF c ne b t2, where loads = demo_loads
          and tr = demo_transport]] l]
    unfolding r i p prod.case sum.case by simp
  from t1 1 t2 2 show ?thesis by blast
qed

section \<open>The per-call resolution function\<close>

text \<open>
  Claim C6. \<^verbatim>\<open>perform_fetch\<close> never raises: whatever the transport, the target and the
  options, its result is an envelope. When the options are a mapping (or absent), exactly
  one request goes to the transport, built from the options' \<^verbatim>\<open>method\<close> (default
  \<^verbatim>\<open>GET\<close>), \<^verbatim>\<open>headers\<close> (default empty) and \<^verbatim>\<open>body\<close>; if the transport fails with a
  message, the envelope is \<^verbatim>\<open>{ok: false, status: 0, statusText: "Error", headers: {}, error:
  message}\<close>; if it answers, the envelope is \<^verbatim>\<open>{ok, status, statusText, headers, data}\<close>
  with \<^verbatim>\<open>ok\<close> the response's success flag and \<^verbatim>\<open>data\<close> the parsed body when the body
  parses, else the text of the body.
\<close>

theorem perform_fetch_never_raises:
  "(\<exists>env. fst (perform_fetch tr u options) = Inr env)
   \<and> (\<forall>kvs. options = JObj kvs \<or> (options = JNull \<and> kvs = []) \<longrightarrow>
        (let rq = \<lparr>req_method = (case map_of kvs ''method'' of Some x \<Rightarrow> x | None \<Rightarrow> JStr ''GET''),
                   req_url = u,
                   req_headers = (case map_of kvs ''headers'' of Some x \<Rightarrow> x | None \<Rightarrow> JObj []),
                   req_content = (case map_of kvs ''body'' of Some x \<Rightarrow> x | None \<Rightarrow> JNull)\<rparr>
         in case tr rq of
              Inl e \<Rightarrow>
                perform_fetch tr u options =
                  (Inr (JObj [(''ok'', JBool False), (''status'', JNum 0), (''statusText'', JStr ''Error''),
                              (''headers'', JObj []), (''error'', JStr e)]), [rq])
            | Inr r \<Rightarrow>
                perform_fetch tr u options =
                  (Inr (JObj [(''ok'', JBool (is_success r)), (''status'', JNum (status_code r)),
                              (''statusText'', JStr (reason_phrase r)),
                              (''headers'', JObj (map (\<lambda>(k, x). (k, JStr x)) (headers_dict r))),
                              (''data'', (case json_body r of Some d \<Rightarrow> d | None \<Rightarrow> JStr (text_body r)))]),
                   [rq])))"
proof (intro conjI allI impI)
  show "\<exists>env. fst (perform_fetch tr u options) = Inr env"
    by (simp add: perform_fetch_def Let_def split: prod.splits sum.splits)
next
  fix kvs
  assume "options = JObj kvs \<or> (options = JNull \<and> kvs = [])"
  then show "let rq = \<lparr>req_method = (case map_of kvs ''method'' of Some x \<Rightarrow> x | None \<Rightarrow> JStr ''GET''),
                   req_url = u,
                   req_headers = (case map_of kvs ''headers'' of Some x \<Rightarrow> x | None \<Rightarrow> JObj []),
                   req_content = (case map_of kvs ''body'' of Some x \<Rightarrow> x | None \<Rightarrow> JNull)\<rparr>
         in case tr rq of
              Inl e \<Rightarrow>
                perform_fetch tr u options =
                  (Inr (JObj [(''ok'', JBool False), (''status'', JNum 0), (''statusText'', JStr ''Error''),
                              (''headers'', JObj []), (''error'', JStr e)]), [rq])
            | Inr r \<Rightarrow>
                perform_fetch tr u options =
                  (Inr (JObj [(''ok'', JBool (is_success r)), (''status'', JNum (status_code r)),
                              (''statusText'', JStr (reason_phrase r)),
                              (''headers'', JObj (map (\<lambda>(k, x). (k, JStr x)) (headers_dict r))),
                              (''data'', (case json_body r of Some d \<Rightarrow> d | None \<Rightarrow> JStr (text_body r)))]),
                   [rq])"
    by (auto simp: perform_fetch_def fetch_attempt_def dict_get_def Let_def
        success_envelope_def failure_envelope_def split: sum.splits)
qed

theorem perform_fetch_never_raises_witness:
  "perform_fetch demo_transport todo_url (JObj []) =
     (Inr (JObj [(''ok'', JBool True), (''status'', JNum 200), (''statusText'', JStr ''OK''),
                 (''headers'', JObj []), (''data'', JObj [(''title'', JStr ''Sample Todo 1'')])]),
      [\<lparr>req_method = JStr ''GET'', req_url = todo_url, req_headers = JObj [], req_content = JNull\<rparr>])
   \<and> perform_fetch demo_transport (JStr ''http://unreachable'') JNull =
     (Inr (JObj [(''ok'', JBool False), (''status'', JNum 0), (''statusText'', JStr ''Error''),
                 (''headers'', JObj []), (''error'', JStr ''All connection attempts failed'')]),
      [\<lparr>req_method = JStr ''GET'', req_url = JStr ''http://unreachable'', req_headers = JObj [], req_content = JNull\<rparr>])"
proof -
  have a: "JObj [] = JObj [] \<or> (JObj [] = JNull \<and> ([] :: (string \<times> json) list) = [])"
    by simp
  have b: "JNull = JObj [] \<or> (JNull = JNull \<and> ([] :: (string \<times> json) list) = [])"
    by simp
  from perform_fetch_never_raises [of demo_transport todo_url "JObj []"] a
  have 1: "perform_fetch demo_transport todo_url (JObj []) =
     (Inr (JObj [(''ok'', JBool True), (''status'', JNum 200), (''statusText'', JStr ''OK''),
                 (''headers'', JObj []), (''data'', JObj [(''title'', JStr ''Sample Todo 1'')])]),
      [\<lparr>req_method = JStr ''GET'', req_url = todo_url, req_headers = JObj [], req_content = JNull\<rparr>])"
    by (simp add: demo_transport_def todo_response_def)
  from perform_fetch_never_raises [of demo_transport "JStr ''http://unreachable''" JNull] b
  have 2: "perform_fetch demo_transport (JStr ''http://unreachable'') JNull =
     (Inr (JObj [(''ok'', JBool False), (''status'', JNum 0), (''statusText'', JStr ''Error''),
                 (''headers'', JObj []), (''error'', JStr ''All connection attempts failed'')]),
      [\<lparr>req_method = JStr ''GET'', req_url = JStr ''http://unreachable'', req_headers = JObj [], req_content = JNull\<rparr>])"
    by (simp add: demo_transport_def todo_url_def)
  from 1 2 show ?thesis by (rule conjI)
qed

section \<open>The resolution phase\<close>

lemma perform_fetch_Inr: "\<exists>env. fst (perform_fetch tr u options) = Inr env"
  by (simp add: perform_fetch_def Let_def split: prod.splits sum.splits)

lemma perform_fetch_sends_one:
  "options = JObj kvs \<Longrightarrow> \<exists>rq. snd (perform_fetch tr u options) = [rq] \<and> req_url rq = u"
  by (auto simp: perform_fetch_def fetch_attempt_def dict_get_def Let_def split: sum.splits)

lemma collect_all_Inr:
  assumes "\<forall>t \<in> set ts. \<exists>x. t = Inr x"
  shows "\<exists>xs. collect ts = Inr xs \<and> map Inr xs = ts"
  using assms
proof (induction ts)
  case Nil
  then show ?case by simp
next
  case (Cons t ts)
  then obtain x where t: "t = Inr x" by auto
  from Cons obtain xs where "collect ts = Inr xs" "map Inr xs = ts" by auto
  with t show ?case by simp
qed

lemma gather_fetches:
  "\<exists>results. gather (map (\<lambda>(u, opts). perform_fetch tr u opts) args) =
       (Inr results, concat (map (\<lambda>(u, opts). snd (perform_fetch tr u opts)) args))
     \<and> map Inr results = map (\<lambda>(u, opts). fst (perform_fetch tr u opts)) args"
proof -
  let ?ts = "map fst (map (\<lambda>(u, opts). perform_fetch tr u opts) args)"
  have "\<forall>t \<in> set ?ts. \<exists>x. t = Inr x"
    using perform_fetch_Inr by (auto simp: split_def)
  from collect_all_Inr [OF this] obtain xs where "collect ?ts = Inr xs" "map Inr xs = ?ts"
    by blast
  then show ?thesis
    by (auto simp: gather_def split_def comp_def)
qed

lemma call_args_length: "call_args log = Inr args \<Longrightarrow> length args = length log"
  by (induction log arbitrary: args) (auto split: option.splits sum.splits)

lemma call_args_log:
  "call_args log = Inr args \<Longrightarrow> log = map (\<lambda>(u, opts). \<lparr>tc_url = Some u, tc_options = opts\<rparr>) args"
  by (induction log arbitrary: args) (auto split: option.splits sum.splits)

lemma call_args_total:
  "\<forall>r \<in> set log. tc_url r \<noteq> None \<Longrightarrow> \<exists>args. call_args log = Inr args"
  by (induction log) auto

lemma results_map_step_keys:
  "fst ` set (foldl (\<lambda>m ((u, opts), result). AList.update (py_key v u opts) result m) m0 pairs) =
     fst ` set m0 \<union> (\<lambda>((u, opts), result). py_key v u opts) ` set pairs"
  by (induction pairs arbitrary: m0) (auto simp: dom_update split_def)

lemma results_map_step_distinct:
  "distinct (map fst m0) \<Longrightarrow>
   distinct (map fst (foldl (\<lambda>m ((u, opts), result). AList.update (py_key v u opts) result m) m0 pairs))"
  by (induction pairs arbitrary: m0) (auto simp: distinct_update split_def)

lemma results_map_distinct: "distinct (map fst (results_map v pairs))"
  by (simp add: results_map_def results_map_step_distinct)

lemma results_map_keys:
  assumes "length results = length args"
  shows "fst ` set (results_map v (zip args results)) = (\<lambda>(u, opts). py_key v u opts) ` set args"
proof -
  have "(\<lambda>((u, opts), result). py_key v u opts) ` set (zip args results)
      = (\<lambda>(u, opts). py_key v u opts) ` fst ` set (zip args results)"
    by (auto simp: image_image split_def)
  also have "fst ` set (zip args results) = set args"
    using assms by (metis map_fst_zip set_map)
  finally show ?thesis
    by (simp add: results_map_def results_map_step_keys)
qed

lemma sent_per_call:
  assumes "\<forall>(u, opts) \<in> set args. \<exists>kvs. opts = JObj kvs"
  shows "map req_url (concat (map (\<lambda>(u, opts). snd (perform_fetch tr u opts)) args)) = map fst args"
  using assms
proof (induction args)
  case Nil
  then show ?case by simp
next
  case (Cons a args)
  obtain u opts where a: "a = (u, opts)" by (cases a)
  with Cons.prems obtain kvs where "opts = JObj kvs" by auto
  from perform_fetch_sends_one [OF this, of tr u] obtain rq where
    "snd (perform_fetch tr u opts) = [rq]" "req_url rq = u" by blast
  with Cons a show ?case by simp
qed

section \<open>When the two keys agree\<close>

text \<open>
  On canonical values (integers that a JavaScript number holds exactly, no characters from
  U+007F on, keys in strictly ascending order and none of them index-like), sorted compact
  \<^verbatim>\<open>json.dumps\<close> and \<^verbatim>\<open>JSON.stringify\<close> produce the same text. For such a target and such
  options the key of the FastAPI file's results map is the key its replay lookup computes,
  and the lookup finds an envelope.
\<close>

lemma escape_char_agree: "(of_char c :: nat) < 127 \<Longrightarrow> py_escape_char c = js_escape_char c"
  by (auto simp: py_escape_char_def js_escape_char_def split: option.splits)

lemma quote_agree: "plain_string s \<Longrightarrow> py_quote s = js_quote s"
  by (simp add: py_quote_def js_quote_def plain_string_def escape_char_agree cong: map_cong)

lemma dumps_agree: "canonical j \<Longrightarrow> py_dumps True '','' '':'' j = js_stringify j"
proof (induction j)
  case (JArr xs)
  then have "map (py_dumps True '','' '':'') xs = map js_stringify xs"
    by (auto intro!: map_cong)
  then show ?case by (simp only: py_dumps.simps js_stringify.simps)
next
  case (JObj kvs)
  then have s: "sorted (map fst kvs)" by (simp add: strict_sorted_imp_sorted)
  have m: "map (map_prod id (py_dumps True '','' '':'')) kvs = map (map_prod id js_stringify) kvs"
    using JObj by (auto intro!: map_cong simp: snds.simps)
  have "sorted (map fst (map (map_prod id js_stringify) kvs))"
    using s by (simp add: comp_def)
  then have a: "sort_key fst (map (map_prod id js_stringify) kvs) = map (map_prod id js_stringify) kvs"
    by (rule sort_key_id_if_sorted)
  have b: "map (\<lambda>(k, s). py_quote k @ '':'' @ s) (map (map_prod id js_stringify) kvs)
      = map (\<lambda>(k, s). js_quote k @ '':'' @ s) (map (map_prod id js_stringify) kvs)"
    using JObj.prems by (auto intro!: map_cong simp: quote_agree)
  show ?case by (simp only: py_dumps.simps js_stringify.simps m if_True a b)
qed (simp_all add: quote_agree)

lemma options_before_url: "sort_key fst [(''url'', a), (''options'', b)] = [(''options'', b), (''url'', a)]"
  by simp

lemma fastapi_keys_agree:
  assumes "canonical u" and "canonical (js_or_empty opts)"
  shows "py_key FastAPI u (tc_options (traced (Some u) opts)) = js_key FastAPI (Some u) opts"
proof -
  have q: "py_quote ''options'' = js_quote ''options''" "py_quote ''url'' = js_quote ''url''"
    by (simp_all add: quote_agree plain_string_def)
  show ?thesis
    by (simp only: py_key_def js_key_def traced_def traced_call.simps variant.case py_dumps.simps
        js_stringify.simps if_True list.map map_prod_simp id_apply options_before_url
        js_object.simps dumps_agree [OF assms(1)] dumps_agree [OF assms(2)] prod.case q)
qed

lemma resolve_produced:
  assumes "fst (resolve v tr log w) = Inr m"
  shows "\<exists>args results. call_args log = Inr args \<and> length results = length args
           \<and> m = results_map v (zip args results)"
proof -
  from assms obtain args where a: "call_args log = Inr args"
    by (auto simp: resolve_def split: sum.splits)
  from gather_fetches [of tr args] obtain results where
    g: "gather (map (\<lambda>(u, opts). perform_fetch tr u opts) args) =
       (Inr results, concat (map (\<lambda>(u, opts). snd (perform_fetch tr u opts)) args))"
    and e: "map Inr results = map (\<lambda>(u, opts). fst (perform_fetch tr u opts)) args"
    by blast
  from e have "length (map Inr results :: (string + json) list) = length args"
    by simp
  then have "length results = length args" by simp
  moreover from assms a g have "m = results_map v (zip args results)"
    by (simp add: resolve_def)
  ultimately show ?thesis using a by blast
qed

lemma fastapi_replay_lookup_hits:
  assumes "fst (resolve FastAPI tr log w) = Inr m"
    and "traced (Some u) opts \<in> set log"
    and "canonical u" and "canonical (js_or_empty opts)"
  shows "\<exists>env. map_of m (js_key FastAPI (Some u) opts) = Some env"
proof -
  from resolve_produced [OF assms(1)] obtain args results where
    a: "call_args log = Inr args" and l: "length results = length args"
    and m: "m = results_map FastAPI (zip args results)"
    by blast
  from assms(2) call_args_log [OF a] have "(u, js_or_empty opts) \<in> set args"
    by (auto simp: traced_def)
  then have "py_key FastAPI u (js_or_empty opts) \<in> (\<lambda>(u, opts). py_key FastAPI u opts) ` set args"
    by force
  then have "py_key FastAPI u (js_or_empty opts) \<in> fst ` set m"
    unfolding m results_map_keys [OF l] .
  then have "js_key FastAPI (Some u) opts \<in> fst ` set m"
    using fastapi_keys_agree [OF assms(3,4)] by (simp add: traced_def)
  then show ?thesis
    by (metis map_of_eq_None_iff not_None_eq)
qed

section \<open>What the resolution phase produces\<close>

text \<open>
  Claim C7. Whenever the resolution phase produces a results map, every traced call has
  produced an envelope (the list of results is as long as the trace and holds, call by call,
  the envelope \<^verbatim>\<open>perform_fetch\<close> returned, failures included: nothing stops at the first
  failure), the map has exactly one entry per distinct key, and its keys are the keys of the
  traced calls. It does produce a map whenever every traced call has a target.
\<close>

theorem resolution_map_complete:
  "(fst (resolve v tr log w) = Inr m \<longrightarrow>
      distinct (map fst m)
      \<and> (\<exists>args results.
            log = map (\<lambda>(u, opts). \<lparr>tc_url = Some u, tc_options = opts\<rparr>) args
          \<and> length results = length log
          \<and> map Inr results = map (\<lambda>(u, opts). fst (perform_fetch tr u opts)) args
          \<and> m = results_map v (zip args results)
          \<and> fst ` set m = (\<lambda>(u, opts). py_key v u opts) ` set args))
   \<and> ((\<forall>r \<in> set log. tc_url r \<noteq> None) \<longrightarrow> (\<exists>m'. fst (resolve v tr log w) = Inr m'))"
proof (rule conjI; rule impI)
  assume r: "fst (resolve v tr log w) = Inr m"
  then obtain args where a: "call_args log = Inr args"
    by (auto simp: resolve_def split: sum.splits)
  from gather_fetches [of tr args] obtain results where
    g: "gather (map (\<lambda>(u, opts). perform_fetch tr u opts) args) =
       (Inr results, concat (map (\<lambda>(u, opts). snd (perform_fetch tr u opts)) args))"
    and e: "map Inr results = map (\<lambda>(u, opts). fst (perform_fetch tr u opts)) args"
    by blast
  from r a g have m: "m = results_map v (zip args results)"
    by (simp add: resolve_def)
  from e have "length (map Inr results :: (string + json) list) = length args"
    by simp
  then have len: "length results = length args" by simp
  have d: "distinct (map fst m)"
    unfolding m by (rule results_map_distinct)
  have lg: "log = map (\<lambda>(u, opts). \<lparr>tc_url = Some u, tc_options = opts\<rparr>) args"
    by (rule call_args_log [OF a])
  have ll: "length results = length log"
    using len call_args_length [OF a] by simp
  have ks: "fst ` set m = (\<lambda>(u, opts). py_key v u opts) ` set args"
    unfolding m by (rule results_map_keys [OF len])
  from lg ll e m ks have "\<exists>args results.
            log = map (\<lambda>(u, opts). \<lparr>tc_url = Some u, tc_options = opts\<rparr>) args
          \<and> length results = length log
          \<and> map Inr results = map (\<lambda>(u, opts). fst (perform_fetch tr u opts)) args
          \<and> m = results_map v (zip args results)
          \<and> fst ` set m = (\<lambda>(u, opts). py_key v u opts) ` set args"
    by blast
  with d show "distinct (map fst m)
      \<and> (\<exists>args results.
            log = map (\<lambda>(u, opts). \<lparr>tc_url = Some u, tc_options = opts\<rparr>) args
          \<and> length results = length log
          \<and> map Inr results = map (\<lambda>(u, opts). fst (perform_fetch tr u opts)) args
          \<and> m = results_map v (zip args results)
          \<and> fst ` set m = (\<lambda>(u, opts). py_key v u opts) ` set args)"
    by (rule conjI)
next
  assume "\<forall>r \<in> set log. tc_url r \<noteq> None"
  from call_args_total [OF this] obtain args where a: "call_args log = Inr args" ..
  from gather_fetches [of tr args] a show "\<exists>m'. fst (resolve v tr log w) = Inr m'"
    by (auto simp: resolve_def)
qed

theorem resolution_map_complete_witness:
  "fst (resolve FastAPI demo_transport
          [traced (Some (JStr ''http://unreachable'')) None, traced (Some todo_url) None] no_effects) =
      Inr [(py_key FastAPI (JStr ''http://unreachable'') (JObj []),
              failure_envelope ''All connection attempts failed''),
           (py_key FastAPI todo_url (JObj []), success_envelope todo_response)]
   \<and> distinct (map fst
        [(py_key FastAPI (JStr ''http://unreachable'') (JObj []),
              failure_envelope ''All connection attempts failed''),
         (py_key FastAPI todo_url (JObj []), success_envelope todo_response)])
   \<and> (\<exists>m'. fst (resolve Standalone demo_transport
          [traced (Some (JStr ''http://unreachable'')) None, traced (Some todo_url) None] no_effects) = Inr m')"
proof -
  let ?log = "[traced (Some (JStr ''http://unreachable'')) None, traced (Some todo_url) None]"
  let ?m = "[(py_key FastAPI (JStr ''http://unreachable'') (JObj []),
              failure_envelope ''All connection attempts failed''),
             (py_key FastAPI todo_url (JObj []), success_envelope todo_response)]"
  have r: "fst (resolve FastAPI demo_transport ?log no_effects) = Inr ?m"
    by code_simp
  have d: "distinct (map fst ?m)"
    using mp [OF conjunct1 [OF resolution_map_complete [of FastAPI demo_transport ?log no_effects ?m]] r]
    by (rule conjunct1)
  have u: "\<forall>r \<in> set ?log. tc_url r \<noteq> None"
    by (simp add: traced_def)
  have t: "\<exists>m'. fst (resolve Standalone demo_transport ?log no_effects) = Inr m'"
    by (rule mp [OF conjunct2 [OF resolution_map_complete [of Standalone demo_transport ?log no_effects ?m]] u])
  from r d t show ?thesis by blast
qed

text \<open>
  Assigning to a key of a Python dict again replaces the value: what a key is bound to in
  the results map is the result of the last traced call with that key.
\<close>

lemma results_map_step_lookup:
  "map_of (foldl (\<lambda>m ((u, opts), result). AList.update (py_key v u opts) result m) m0 pairs) =
     map_of (rev (map (\<lambda>((u, opts), result). (py_key v u opts, result)) pairs) @ m0)"
proof (induction pairs arbitrary: m0)
  case Nil
  then show ?case by simp
next
  case (Cons p pairs)
  obtain u opts result where p: "p = ((u, opts), result)" by (cases p) auto
  show ?case
    by (simp add: Cons.IH p update_conv' map_of_append fun_eq_iff map_add_def split: option.splits)
qed

lemma results_map_lookup:
  "map_of (results_map v (zip args results)) =
     map_of (rev (zip (map (\<lambda>(u, opts). py_key v u opts) args) results))"
proof -
  have "map (\<lambda>((u, opts), result). (py_key v u opts, result)) (zip args results) =
      zip (map (\<lambda>(u, opts). py_key v u opts) args) results"
    by (simp add: zip_map1 split_def)
  then show ?thesis
    by (simp add: results_map_def results_map_step_lookup)
qed

lemma last_write_wins:
  assumes "k \<in> fst ` set ps"
  shows "\<exists>i < length ps. fst (ps ! i) = k \<and> (\<forall>j < length ps. i < j \<longrightarrow> fst (ps ! j) \<noteq> k)
           \<and> map_of (rev ps) k = Some (snd (ps ! i))"
  using assms
proof (induction ps rule: rev_induct)
  case Nil
  then show ?case by simp
next
  case (snoc p ps)
  show ?case
  proof (cases "fst p = k")
    case True
    have "length ps < length (ps @ [p]) \<and> fst ((ps @ [p]) ! length ps) = k
        \<and> (\<forall>j < length (ps @ [p]). length ps < j \<longrightarrow> fst ((ps @ [p]) ! j) \<noteq> k)
        \<and> map_of (rev (ps @ [p])) k = Some (snd ((ps @ [p]) ! length ps))"
      using True by (cases p) auto
    then show ?thesis by blast
  next
    case False
    with snoc.prems have "k \<in> fst ` set ps" by auto
    from snoc.IH [OF this] obtain i where i: "i < length ps" "fst (ps ! i) = k"
      "\<forall>j < length ps. i < j \<longrightarrow> fst (ps ! j) \<noteq> k" "map_of (rev ps) k = Some (snd (ps ! i))"
      by blast
    have "i < length (ps @ [p]) \<and> fst ((ps @ [p]) ! i) = k
        \<and> (\<forall>j < length (ps @ [p]). i < j \<longrightarrow> fst ((ps @ [p]) ! j) \<noteq> k)
        \<and> map_of (rev (ps @ [p])) k = Some (snd ((ps @ [p]) ! i))"
      using i False by (cases p) (auto simp: nth_append less_Suc_eq)
    then show ?thesis by blast
  qed
qed

lemma results_map_last:
  assumes "length results = length args" and "(u, opts) \<in> set args"
  shows "\<exists>i < length args.
           py_key v (fst (args ! i)) (snd (args ! i)) = py_key v u opts
         \<and> (\<forall>j < length args. i < j \<longrightarrow> py_key v (fst (args ! j)) (snd (args ! j)) \<noteq> py_key v u opts)
         \<and> map_of (results_map v (zip args results)) (py_key v u opts) = Some (results ! i)"
proof -
  let ?keys = "map (\<lambda>(u, opts). py_key v u opts) args"
  let ?ps = "zip ?keys results"
  have l: "length ?ps = length args"
    using assms(1) by simp
  have "map fst ?ps = ?keys"
    using assms(1) by (simp add: map_fst_zip)
  then have "fst ` set ?ps = set ?keys"
    by (metis set_map)
  then have "py_key v u opts \<in> fst ` set ?ps"
    using assms(2) by force
  from last_write_wins [OF this] obtain i where i: "i < length ?ps" "fst (?ps ! i) = py_key v u opts"
    "\<forall>j < length ?ps. i < j \<longrightarrow> fst (?ps ! j) \<noteq> py_key v u opts"
    "map_of (rev ?ps) (py_key v u opts) = Some (snd (?ps ! i))"
    by blast
  have n: "?ps ! j = (py_key v (fst (args ! j)) (snd (args ! j)), results ! j)" if "j < length args" for j
    using that assms(1) by (simp add: split_def)
  have "i < length args" using i(1) l by simp
  moreover have "py_key v (fst (args ! i)) (snd (args ! i)) = py_key v u opts"
    using i(2) n [OF \<open>i < length args\<close>] by simp
  moreover have "\<forall>j < length args. i < j \<longrightarrow> py_key v (fst (args ! j)) (snd (args ! j)) \<noteq> py_key v u opts"
    using i(3) n l by simp
  moreover have "map_of (results_map v (zip args results)) (py_key v u opts) = Some (results ! i)"
    using i(4) n [OF \<open>i < length args\<close>] by (simp add: results_map_lookup)
  ultimately show ?thesis by blast
qed

text \<open>
  Claim C1, as amended. The traced calls are not deduplicated before dispatch: when every
  traced call has a target and its options are a mapping, the resolution phase hands the
  transport one request per traced call, in trace order, each to the target of its call,
  and every one of them yields an envelope. Only the results map is deduplicated (one entry
  per distinct key). During replay, from any state of the results map, two consecutive calls
  with the same target and options are answered with the same value. In the FastAPI file,
  for a traced call whose target and options are canonical, the value a call in the fresh
  second-pass context is answered with is the envelope that was fetched for the last
  traced call with the same key.
\<close>

theorem one_fetch_per_traced_call:
  assumes "call_args log = Inr args"
    and "\<forall>(u, opts) \<in> set args. \<exists>kvs. opts = JObj kvs"
  shows "\<exists>m results sent.
            resolve v tr log w = (Inr m, w\<lparr>fetched := fetched w @ sent\<rparr>)
          \<and> m = results_map v (zip args results)
          \<and> map Inr results = map (\<lambda>(u, opts). fst (perform_fetch tr u opts)) args
          \<and> map req_url sent = map fst args \<and> length sent = length log
          \<and> distinct (map fst m)
          \<and> replay_eval v (Call f u opts (\<lambda>r1. Call f u opts (\<lambda>r2. k r1 r2))) m' =
            replay_eval v (Call f u opts (\<lambda>r1. k r1 r1)) m'
          \<and> (v = FastAPI \<and> traced (Some u') opts' \<in> set log
                \<and> canonical u' \<and> canonical (js_or_empty opts') \<longrightarrow>
              (\<exists>i < length args.
                  py_key FastAPI (fst (args ! i)) (snd (args ! i)) = js_key FastAPI (Some u') opts'
                \<and> (\<forall>j < length args. i < j \<longrightarrow>
                      py_key FastAPI (fst (args ! j)) (snd (args ! j)) \<noteq> js_key FastAPI (Some u') opts')
                \<and> replay_eval v (Call f' (Some u') opts' k') m =
                  replay_eval v (k' (Returned (Some (results ! i)))) m))"
proof -
  let ?sent = "concat (map (\<lambda>(u, opts). snd (perform_fetch tr u opts)) args)"
  from gather_fetches [of tr args] obtain results where
    g: "gather (map (\<lambda>(u, opts). perform_fetch tr u opts) args) = (Inr results, ?sent)"
    and e: "map Inr results = map (\<lambda>(u, opts). fst (perform_fetch tr u opts)) args"
    by blast
  let ?m = "results_map v (zip args results)"
  from e have "length (map Inr results :: (string + json) list) = length args"
    by simp
  then have len: "length results = length args" by simp
  have s: "map req_url ?sent = map fst args"
    by (rule sent_per_call [OF assms(2)])
  then have "length (map req_url ?sent) = length args" by simp
  then have l: "length ?sent = length log"
    using call_args_length [OF assms(1)] by simp
  have r: "resolve v tr log w = (Inr ?m, w\<lparr>fetched := fetched w @ ?sent\<rparr>)"
    by (simp add: resolve_def assms(1) g)
  have d: "distinct (map fst ?m)"
    by (rule results_map_distinct)
  have c: "replay_eval v (Call f u opts (\<lambda>r1. Call f u opts (\<lambda>r2. k r1 r2))) m' =
           replay_eval v (Call f u opts (\<lambda>r1. k r1 r1)) m'"
    by simp
  have h: "v = FastAPI \<and> traced (Some u') opts' \<in> set log
                \<and> canonical u' \<and> canonical (js_or_empty opts') \<longrightarrow>
              (\<exists>i < length args.
                  py_key FastAPI (fst (args ! i)) (snd (args ! i)) = js_key FastAPI (Some u') opts'
                \<and> (\<forall>j < length args. i < j \<longrightarrow>
                      py_key FastAPI (fst (args ! j)) (snd (args ! j)) \<noteq> js_key FastAPI (Some u') opts')
                \<and> replay_eval v (Call f' (Some u') opts' k') ?m =
                  replay_eval v (k' (Returned (Some (results ! i)))) ?m)"
  proof
    assume a: "v = FastAPI \<and> traced (Some u') opts' \<in> set log
                \<and> canonical u' \<and> canonical (js_or_empty opts')"
    then have v: "v = FastAPI" and cu: "canonical u'" and co: "canonical (js_or_empty opts')"
      and tl: "traced (Some u') opts' \<in> set log"
      by simp_all
    from tl call_args_log [OF assms(1)] have "(u', js_or_empty opts') \<in> set args"
      by (auto simp: traced_def)
    from results_map_last [OF len this, of FastAPI] obtain i where i: "i < length args"
      "py_key FastAPI (fst (args ! i)) (snd (args ! i)) = py_key FastAPI u' (js_or_empty opts')"
      "\<forall>j < length args. i < j \<longrightarrow>
          py_key FastAPI (fst (args ! j)) (snd (args ! j)) \<noteq> py_key FastAPI u' (js_or_empty opts')"
      "map_of (results_map FastAPI (zip args results)) (py_key FastAPI u' (js_or_empty opts')) =
          Some (results ! i)"
      by blast
    have ke: "py_key FastAPI u' (js_or_empty opts') = js_key FastAPI (Some u') opts'"
      using fastapi_keys_agree [OF cu co] by (simp add: traced_def)
    have "replay_eval v (Call f' (Some u') opts' k') ?m =
          replay_eval v (k' (Returned (Some (results ! i)))) ?m"
      using i(4) by (simp add: v ke installed_def host_source_def split: hostfn.splits)
    with i(1) i(2) i(3) show "\<exists>i < length args.
                  py_key FastAPI (fst (args ! i)) (snd (args ! i)) = js_key FastAPI (Some u') opts'
                \<and> (\<forall>j < length args. i < j \<longrightarrow>
                      py_key FastAPI (fst (args ! j)) (snd (args ! j)) \<noteq> js_key FastAPI (Some u') opts')
                \<and> replay_eval v (Call f' (Some u') opts' k') ?m =
                  replay_eval v (k' (Returned (Some (results ! i)))) ?m"
      unfolding ke by blast
  qed
  from r e s l d c h show ?thesis
    by (intro exI [of _ ?m] exI [of _ results] exI [of _ ?sent] conjI refl)
qed

theorem one_fetch_per_traced_call_witness:
  "call_args [traced (Some todo_url) None, traced (Some todo_url) None] =
      Inr [(todo_url, JObj []), (todo_url, JObj [])]
   \<and> canonical todo_url \<and> canonical (js_or_empty None)
   \<and> (\<exists>m sent. resolve FastAPI demo_transport [traced (Some todo_url) None, traced (Some todo_url) None]
          no_effects = (Inr m, no_effects\<lparr>fetched := fetched no_effects @ sent\<rparr>)
        \<and> map req_url sent = [todo_url, todo_url] \<and> length sent = 2 \<and> distinct (map fst m)
        \<and> replay_eval FastAPI (Call HttpGet (Some todo_url) None (read_status JNull)) m =
            (Inr (Plain (JNum 200)), JNull, m))"
proof -
  let ?log = "[traced (Some todo_url) None, traced (Some todo_url) None]"
  let ?args = "[(todo_url, JObj []), (todo_url, JObj [])]"
  let ?env = "success_envelope todo_response"
  have a: "call_args ?log = Inr ?args"
    by (simp add: traced_def js_or_empty_def)
  have o: "\<forall>(u, opts) \<in> set ?args. \<exists>kvs. opts = JObj kvs"
    by simp
  have c1: "canonical todo_url"
    by (simp add: todo_url_def plain_string_def)
  have c2: "canonical (js_or_empty None)"
    by (simp add: js_or_empty_def)
  have t: "FastAPI = FastAPI \<and> traced (Some todo_url) None \<in> set ?log
      \<and> canonical todo_url \<and> canonical (js_or_empty None)"
    using c1 c2 by simp
  from one_fetch_per_traced_call [OF a o, where v = FastAPI and tr = demo_transport
      and w = no_effects and u' = todo_url and opts' = None and f' = HttpGet
      and k' = "read_status JNull" and f = HttpGet and u = None and opts = None
      and k = "\<lambda>r1 r2. Done (Plain JNull) JNull" and m' = "[]"]
  obtain m results sent where
    r: "resolve FastAPI demo_transport ?log no_effects =
          (Inr m, no_effects\<lparr>fetched := fetched no_effects @ sent\<rparr>)"
    and e: "map Inr results = map (\<lambda>(u, opts). fst (perform_fetch demo_transport u opts)) ?args"
    and s: "map req_url sent = map fst ?args" and l: "length sent = length ?log"
    and d: "distinct (map fst m)"
    and h: "FastAPI = FastAPI \<and> traced (Some todo_url) None \<in> set ?log
                 \<and> canonical todo_url \<and> canonical (js_or_empty None) \<longrightarrow>
              (\<exists>i < length ?args.
                  py_key FastAPI (fst (?args ! i)) (snd (?args ! i)) = js_key FastAPI (Some todo_url) None
                \<and> (\<forall>j < length ?args. i < j \<longrightarrow>
                      py_key FastAPI (fst (?args ! j)) (snd (?args ! j)) \<noteq> js_key FastAPI (Some todo_url) None)
                \<and> replay_eval FastAPI (Call HttpGet (Some todo_url) None (read_status JNull)) m =
                  replay_eval FastAPI (read_status JNull (Returned (Some (results ! i)))) m)"
    by blast
  from h t obtain i where i: "i < length ?args"
    and p: "replay_eval FastAPI (Call HttpGet (Some todo_url) None (read_status JNull)) m =
            replay_eval FastAPI (read_status JNull (Returned (Some (results ! i)))) m"
    by blast
  have f: "map (\<lambda>(u, opts). fst (perform_fetch demo_transport u opts)) ?args = map Inr [?env, ?env]"
    by code_simp
  have "map Inr results = (map Inr [?env, ?env] :: (string + json) list)"
    using e unfolding f .
  then have rs: "results = [?env, ?env]"
    by (auto simp: map_eq_Cons_conv)
  have "results ! i = ?env"
    using i unfolding rs by (cases i) simp_all
  then have q: "replay_eval FastAPI (Call HttpGet (Some todo_url) None (read_status JNull)) m =
      (Inr (Plain (JNum 200)), JNull, m)"
    unfolding p by (simp add: read_status_def success_envelope_def todo_response_def field_def)
  from s have s': "map req_url sent = [todo_url, todo_url]" by simp
  from l have l': "length sent = 2" by simp
  from r s' l' d q have "\<exists>m sent. resolve FastAPI demo_transport ?log no_effects =
            (Inr m, no_effects\<lparr>fetched := fetched no_effects @ sent\<rparr>)
        \<and> map req_url sent = [todo_url, todo_url] \<and> length sent = 2 \<and> distinct (map fst m)
        \<and> replay_eval FastAPI (Call HttpGet (Some todo_url) None (read_status JNull)) m =
            (Inr (Plain (JNum 200)), JNull, m)"
    by (intro exI [of _ m] exI [of _ sent] conjI)
  with a c1 c2 show ?thesis by (intro conjI)
qed

text \<open>
  The counterexample to claim C1 as stated: a script that calls \<^verbatim>\<open>httpGet\<close> twice with the
  same target and no options makes both files hand two requests to the transport.
\<close>

theorem duplicate_calls_counterexample:
  "trace_eval FastAPI (run demo_engine (early 0) inputs_u script_twice) [] =
      (Inl type_error, inputs_u, [traced (Some todo_url) None, traced (Some todo_url) None])
   \<and> interception_calls FastAPI (run demo_engine (early 0) inputs_u script_twice) [] = 2
   \<and> fetched (snd (execute_code FastAPI demo_engine early demo_loads demo_transport
        \<lparr>code = JStr script_twice, inputs = inputs_u\<rparr>)) =
      [\<lparr>req_method = JStr ''GET'', req_url = todo_url, req_headers = JObj [], req_content = JNull\<rparr>,
       \<lparr>req_method = JStr ''GET'', req_url = todo_url, req_headers = JObj [], req_content = JNull\<rparr>]
   \<and> length (fetched (snd (execute_code FastAPI demo_engine early demo_loads demo_transport
        \<lparr>code = JStr script_twice, inputs = inputs_u\<rparr>))) \<noteq> 1
   \<and> length (fetched (snd (execute_code Standalone demo_engine early demo_loads demo_transport
        \<lparr>code = JStr script_twice, inputs = inputs_u\<rparr>))) \<noteq> 1"
  by code_simp

section \<open>Canonical keys on the two sides\<close>

text \<open>
  Claim C2 asks that the key computed when the results map is built equals the key computed
  by the replay lookup. This fails in both files. In the standalone file the Python side
  uses the default separators of \<^verbatim>\<open>json.dumps\<close> (a blank after each colon and comma) and
  the JavaScript side none, so the keys differ for every call. In the FastAPI file the
  Python side sorts the keys of the options at every depth and the JavaScript side keeps
  them in the order the script wrote them, so the keys differ for options written as
  \<^verbatim>\<open>{method: ..., headers: ..., body: ...}\<close>. In both cases the replay lookup misses, the script reads a
  property of \<^verbatim>\<open>undefined\<close>, and the request ends in error 500.
\<close>

theorem canonical_key_mismatch:
  "py_key Standalone todo_url (tc_options (traced (Some todo_url) None))
     \<noteq> js_key Standalone (Some todo_url) None
   \<and> py_key FastAPI todo_url (tc_options (traced (Some todo_url) (Some post_options)))
     \<noteq> js_key FastAPI (Some todo_url) (Some post_options)
   \<and> fst (execute_code Standalone demo_engine early demo_loads demo_transport
          \<lparr>code = JStr script_title, inputs = inputs_u\<rparr>)
     = HTTPException 500 (execution_failed type_error)
   \<and> fst (execute_code FastAPI demo_engine early demo_loads demo_transport
          \<lparr>code = JStr script_post, inputs = inputs_u\<rparr>)
     = HTTPException 500 (execution_failed type_error)"
  by code_simp

section \<open>Opaque results in the FastAPI file\<close>

lemma resolve_evaluated: "evaluated (snd (resolve v tr log w)) = evaluated w"
  by (simp add: resolve_def split: sum.splits prod.splits)

lemma resolve_contexts: "contexts (snd (resolve v tr log w)) = contexts w"
  by (simp add: resolve_def split: sum.splits prod.splits)

lemma answer_message:
  "(case p of
      (Inl e, w) \<Rightarrow> (HTTPException 500 (execution_failed e), w)
    | (Inr result, w) \<Rightarrow> (ExecuteResponse result, w)) =
   (case p of
      (Inl e, w) \<Rightarrow>
        (HTTPException 500 (JObj [(''error'', JStr ''Execution failed''), (''message'', JStr e)]), w)
    | (Inr result, w) \<Rightarrow> (ExecuteResponse result, w))"
  by (simp add: execution_failed_def split: prod.splits sum.splits)

text \<open>
  Claim C9, as amended. In the FastAPI file, when a pass ends with an opaque \<^verbatim>\<open>JSObject\<close>,
  be it the first pass with an empty request log or the replay pass, the source
  \<^verbatim>\<open>JSON.stringify(eval(`...`))\<close> around the code, in which every backtick and every dollar
  sign is preceded by a backslash, is evaluated in the same context, on what the pass left
  behind. What follows depends on what that evaluation gives. A non-empty string is parsed
  by \<^verbatim>\<open>json.loads\<close> and the parsed value is the answer. Nothing (\<^verbatim>\<open>None\<close>), the empty string or
  another falsy value makes the opaque object itself the answer. If the re-evaluation
  raises, or \<^verbatim>\<open>json.loads\<close> raises (as it does for a truthy value that is not a string), the
  request fails with error 500 carrying the message; except after the first pass when the
  re-evaluation has left entries in the request log: then the service goes on to the
  resolution phase and the replay pass over these entries. The claim as the specification
  states it, that the parsed text or the opaque object is returned whenever a pass ends with
  an opaque object, fails for a script whose second evaluation raises, see the
  counterexample below.
\<close>

theorem jsobject_reevaluated:
  assumes "code request = JStr src" and "src \<noteq> []"
    and "boot E (inputs request) = Inr c0"
    and "again = ''JSON.stringify(eval('' @ [CHR 0x60]
           @ concat (map (\<lambda>c. if c = CHR 0x60 then [CHR 0x5C, CHR 0x60]
                              else if c = CHR ''$'' then [CHR 0x5C, CHR ''$''] else [c]) src)
           @ [CHR 0x60] @ ''))''"
  shows "(trace_eval FastAPI (run E (ent 0) c0 src) [] = (Inr (JSObject h), c1, [])
          \<and> trace_eval FastAPI (run E (ent 1) c1 again) [] = (rj, c2, log2)
          \<and> w2 = \<lparr>contexts = 1, evaluated = [src, again], fetched = []\<rparr>
          \<and> failed = (\<lambda>e. if log2 = []
                then (HTTPException 500
                        (JObj [(''error'', JStr ''Execution failed''), (''message'', JStr e)]), w2)
                else (case resolve_and_replay FastAPI E ent loads tr (inputs request) src log2 w2 of
                        (Inl e', w') \<Rightarrow>
                          (HTTPException 500
                             (JObj [(''error'', JStr ''Execution failed''), (''message'', JStr e')]), w')
                      | (Inr result, w') \<Rightarrow> (ExecuteResponse result, w')))
          \<longrightarrow> execute_code FastAPI E ent loads tr request =
                (case rj of
                   Inl e \<Rightarrow> failed e
                 | Inr (Plain (JStr s)) \<Rightarrow>
                     if s = [] then (ExecuteResponse (JSObject h), w2)
                     else (case loads s of
                             Inl e \<Rightarrow> failed e
                           | Inr x \<Rightarrow> (ExecuteResponse (Plain x), w2))
                 | Inr (Plain JNull) \<Rightarrow> (ExecuteResponse (JSObject h), w2)
                 | Inr other \<Rightarrow>
                     if py_truthy other
                     then failed ''the JSON object must be str, bytes or bytearray''
                     else (ExecuteResponse (JSObject h), w2)))
       \<and> (trace_eval FastAPI (run E (ent 0) c0 src) [] = (r, c1, log) \<and> log \<noteq> []
          \<and> resolve FastAPI tr log \<lparr>contexts = 1, evaluated = [src], fetched = []\<rparr> = (Inr m, w)
          \<and> replay_eval FastAPI (run E (ent 1) c0 src) m = (Inr (JSObject h'), c3, m3)
          \<and> replay_eval FastAPI (run E (ent 2) c3 again) m3 = (rj', c4, m4)
          \<and> w4 = w\<lparr>contexts := 2, evaluated := [src, src, again]\<rparr>
          \<and> failed' = (\<lambda>e. (HTTPException 500
                        (JObj [(''error'', JStr ''Execution failed''), (''message'', JStr e)]), w4))
          \<longrightarrow> execute_code FastAPI E ent loads tr request =
                (case rj' of
                   Inl e \<Rightarrow> failed' e
                 | Inr (Plain (JStr s)) \<Rightarrow>
                     if s = [] then (ExecuteResponse (JSObject h'), w4)
                     else (case loads s of
                             Inl e \<Rightarrow> failed' e
                           | Inr x \<Rightarrow> (ExecuteResponse (Plain x), w4))
                 | Inr (Plain JNull) \<Rightarrow> (ExecuteResponse (JSObject h'), w4)
                 | Inr other \<Rightarrow>
                     if py_truthy other
                     then failed' ''the JSON object must be str, bytes or bytearray''
                     else (ExecuteResponse (JSObject h'), w4)))"
proof (rule conjI; rule impI)
  have ag: "reeval_source src = again"
    unfolding assms(4) by (rule reeval_source_text)
  assume a: "trace_eval FastAPI (run E (ent 0) c0 src) [] = (Inr (JSObject h), c1, [])
          \<and> trace_eval FastAPI (run E (ent 1) c1 again) [] = (rj, c2, log2)
          \<and> w2 = \<lparr>contexts = 1, evaluated = [src, again], fetched = []\<rparr>
          \<and> failed = (\<lambda>e. if log2 = []
                then (HTTPException 500
                        (JObj [(''error'', JStr ''Execution failed''), (''message'', JStr e)]), w2)
                else (case resolve_and_replay FastAPI E ent loads tr (inputs request) src log2 w2 of
                        (Inl e', w') \<Rightarrow>
                          (HTTPException 500
                             (JObj [(''error'', JStr ''Execution failed''), (''message'', JStr e')]), w')
                      | (Inr result, w') \<Rightarrow> (ExecuteResponse result, w')))"
  then have t1: "trace_eval FastAPI (run E (ent 0) c0 src) [] = (Inr (JSObject h), c1, [])"
    and t2: "trace_eval FastAPI (run E (ent 1) c1 again) [] = (rj, c2, log2)"
    and w2: "w2 = \<lparr>contexts = 1, evaluated = [src, again], fetched = []\<rparr>"
    and f: "failed = (\<lambda>e. if log2 = []
                then (HTTPException 500
                        (JObj [(''error'', JStr ''Execution failed''), (''message'', JStr e)]), w2)
                else (case resolve_and_replay FastAPI E ent loads tr (inputs request) src log2 w2 of
                        (Inl e', w') \<Rightarrow>
                          (HTTPException 500
                             (JObj [(''error'', JStr ''Execution failed''), (''message'', JStr e')]), w')
                      | (Inr result, w') \<Rightarrow> (ExecuteResponse result, w')))"
    by simp_all
  have fp: "first_pass FastAPI E ent loads src (TraceCtx c0 []) \<lparr>contexts = 1, evaluated = [], fetched = []\<rparr> =
     (case (case rj of
              Inl e \<Rightarrow> Inl e
            | Inr result_json \<Rightarrow>
                if py_truthy result_json
                then (case py_json_loads loads result_json of Inl e \<Rightarrow> Inl e | Inr x \<Rightarrow> Inr (Plain x))
                else Inr (JSObject h)) of
        Inr result' \<Rightarrow> (Return result', w2)
      | Inl e \<Rightarrow> (if log2 = [] then (Reraise e, w2) else (Continue log2, w2)))"
    using t1 t2
    by (simp add: first_pass_def ctx_eval_def handle_jsobject_def http_requests_of_def ag w2
        split: sum.splits)
  show "execute_code FastAPI E ent loads tr request =
                (case rj of
                   Inl e \<Rightarrow> failed e
                 | Inr (Plain (JStr s)) \<Rightarrow>
                     if s = [] then (ExecuteResponse (JSObject h), w2)
                     else (case loads s of
                             Inl e \<Rightarrow> failed e
                           | Inr x \<Rightarrow> (ExecuteResponse (Plain x), w2))
                 | Inr (Plain JNull) \<Rightarrow> (ExecuteResponse (JSObject h), w2)
                 | Inr other \<Rightarrow>
                     if py_truthy other
                     then failed ''the JSON object must be str, bytes or bytearray''
                     else (ExecuteResponse (JSObject h), w2))"
    unfolding execute_code_valid [OF assms(1,2)] execute_try_booted [OF assms(3)] fp f
    by (simp add: py_truthy_def py_truthy_json_def py_json_loads_def execution_failed_def
        answer_message split: sum.splits pyres.splits json.splits)
next
  have ag: "reeval_source src = again"
    unfolding assms(4) by (rule reeval_source_text)
  assume b: "trace_eval FastAPI (run E (ent 0) c0 src) [] = (r, c1, log) \<and> log \<noteq> []
          \<and> resolve FastAPI tr log \<lparr>contexts = 1, evaluated = [src], fetched = []\<rparr> = (Inr m, w)
          \<and> replay_eval FastAPI (run E (ent 1) c0 src) m = (Inr (JSObject h'), c3, m3)
          \<and> replay_eval FastAPI (run E (ent 2) c3 again) m3 = (rj', c4, m4)
          \<and> w4 = w\<lparr>contexts := 2, evaluated := [src, src, again]\<rparr>
          \<and> failed' = (\<lambda>e. (HTTPException 500
                        (JObj [(''error'', JStr ''Execution failed''), (''message'', JStr e)]), w4))"
  then have t: "trace_eval FastAPI (run E (ent 0) c0 src) [] = (r, c1, log)" and l: "log \<noteq> []"
    and rs: "resolve FastAPI tr log \<lparr>contexts = 1, evaluated = [src], fetched = []\<rparr> = (Inr m, w)"
    and r1: "replay_eval FastAPI (run E (ent 1) c0 src) m = (Inr (JSObject h'), c3, m3)"
    and r2: "replay_eval FastAPI (run E (ent 2) c3 again) m3 = (rj', c4, m4)"
    and w4: "w4 = w\<lparr>contexts := 2, evaluated := [src, src, again]\<rparr>"
    and f: "failed' = (\<lambda>e. (HTTPException 500
                        (JObj [(''error'', JStr ''Execution failed''), (''message'', JStr e)]), w4))"
    by simp_all
  from rs have rs': "resolve FastAPI tr log \<lparr>contexts = Suc 0, evaluated = [src], fetched = []\<rparr> = (Inr m, w)"
    by simp
  have ev: "evaluated w = [src]"
    using resolve_evaluated [of FastAPI tr log "\<lparr>contexts = 1, evaluated = [src], fetched = []\<rparr>"]
    unfolding rs by simp
  have cx: "contexts w = 1"
    using resolve_contexts [of FastAPI tr log "\<lparr>contexts = 1, evaluated = [src], fetched = []\<rparr>"]
    unfolding rs by simp
  have rp: "replay FastAPI E ent loads (inputs request) src m w =
      (case rj' of
         Inl e \<Rightarrow> Inl e
       | Inr result_json \<Rightarrow>
           if py_truthy result_json
           then (case py_json_loads loads result_json of Inl e \<Rightarrow> Inl e | Inr x \<Rightarrow> Inr (Plain x))
           else Inr (JSObject h'), w4)"
    using r1 r2
    by (simp add: replay_def create_context_with_http_support_def assms(3) ctx_eval_def
        handle_jsobject_def ag ev cx w4 numeral_2_eq_2 split: sum.splits)
  have fp: "first_pass FastAPI E ent loads src (TraceCtx c0 []) \<lparr>contexts = 1, evaluated = [], fetched = []\<rparr>
      = (Continue log, \<lparr>contexts = 1, evaluated = [src], fetched = []\<rparr>)"
    using first_pass_traced [where ent = ent and loads = loads
        and w = "\<lparr>contexts = 1, evaluated = [], fetched = []\<rparr>", OF t l]
    by simp
  show "execute_code FastAPI E ent loads tr request =
                (case rj' of
                   Inl e \<Rightarrow> failed' e
                 | Inr (Plain (JStr s)) \<Rightarrow>
                     if s = [] then (ExecuteResponse (JSObject h'), w4)
                     else (case loads s of
                             Inl e \<Rightarrow> failed' e
                           | Inr x \<Rightarrow> (ExecuteResponse (Plain x), w4))
                 | Inr (Plain JNull) \<Rightarrow> (ExecuteResponse (JSObject h'), w4)
                 | Inr other \<Rightarrow>
                     if py_truthy other
                     then failed' ''the JSON object must be str, bytes or bytearray''
                     else (ExecuteResponse (JSObject h'), w4))"
    unfolding execute_code_valid [OF assms(1,2)] execute_try_booted [OF assms(3)] fp f
    by (simp add: resolve_and_replay_def rs' rp py_truthy_def py_truthy_json_def py_json_loads_def
        execution_failed_def split: sum.splits pyres.splits json.splits)
qed

theorem jsobject_reevaluated_witness:
  "execute_code FastAPI demo_engine early demo_loads demo_transport
       \<lparr>code = JStr script_template, inputs = JObj []\<rparr> =
     (ExecuteResponse (Plain (JObj [(''a'', JStr ''$'')])),
      \<lparr>contexts = 1, evaluated = [script_template, stringify_eval escaped_template], fetched = []\<rparr>)
   \<and> execute_code FastAPI demo_engine early demo_loads demo_transport
       \<lparr>code = JStr script_opaque, inputs = JObj []\<rparr> =
     (ExecuteResponse (JSObject 2),
      \<lparr>contexts = 1, evaluated = [script_opaque, stringify_eval script_opaque], fetched = []\<rparr>)
   \<and> execute_code FastAPI demo_engine early demo_loads demo_transport
       \<lparr>code = JStr script_once, inputs = JObj []\<rparr> =
     (HTTPException 500 (JObj [(''error'', JStr ''Execution failed''), (''message'', JStr ''Error: 1'')]),
      \<lparr>contexts = 1, evaluated = [script_once, stringify_eval script_once], fetched = []\<rparr>)
   \<and> execute_code FastAPI demo_engine early demo_loads demo_transport
       \<lparr>code = JStr script_envelope, inputs = inputs_u\<rparr> =
     (ExecuteResponse (Plain (success_envelope todo_response)),
      \<lparr>contexts = 2,
        evaluated = [script_envelope, script_envelope, stringify_eval script_envelope],
        fetched = [\<lparr>req_method = JStr ''GET'', req_url = todo_url, req_headers = JObj [],
                    req_content = JNull\<rparr>]\<rparr>)"
proof -
  let ?escape = "\<lambda>src. ''JSON.stringify(eval('' @ [CHR 0x60]
           @ concat (map (\<lambda>c. if c = CHR 0x60 then [CHR 0x5C, CHR 0x60]
                              else if c = CHR ''$'' then [CHR 0x5C, CHR ''$''] else [c]) src)
           @ [CHR 0x60] @ ''))''"
  let ?failed = "\<lambda>log2 w2 ins src e. if log2 = []
                then (HTTPException 500
                        (JObj [(''error'', JStr ''Execution failed''), (''message'', JStr e)]), w2)
                else (case resolve_and_replay FastAPI demo_engine early demo_loads demo_transport
                             ins src log2 w2 of
                        (Inl e', w') \<Rightarrow>
                          (HTTPException 500
                             (JObj [(''error'', JStr ''Execution failed''), (''message'', JStr e')]), w')
                      | (Inr result, w') \<Rightarrow> (ExecuteResponse result, w'))"
  have b: "boot demo_engine (inputs \<lparr>code = JStr c, inputs = i\<rparr>) = Inr i" for c i
    by (simp add: demo_engine_def)
  have c: "code \<lparr>code = JStr c, inputs = i\<rparr> = JStr c" for c i
    by simp
  have i: "inputs \<lparr>code = JStr c, inputs = i\<rparr> = i" for c i
    by simp
  have n1: "script_template \<noteq> []" and n2: "script_opaque \<noteq> []" and n3: "script_once \<noteq> []"
    and n4: "script_envelope \<noteq> []"
    by (simp_all add: script_template_def script_opaque_def script_once_def script_envelope_def)
  have a1: "stringify_eval escaped_template = ?escape script_template"
    by (simp add: stringify_eval_def escaped_template_def script_template_def)
  have a2: "stringify_eval script_opaque = ?escape script_opaque"
    by (simp add: stringify_eval_def script_opaque_def)
  have a3: "stringify_eval script_once = ?escape script_once"
    by (simp add: stringify_eval_def script_once_def)
  have a4: "stringify_eval script_envelope = ?escape script_envelope"
    by (simp add: stringify_eval_def script_envelope_def)
  \<comment> \<open>fast path, the re-evaluation yields JSON text\<close>
  let ?r1 = "\<lparr>code = JStr script_template, inputs = JObj []\<rparr>"
  let ?w1 = "\<lparr>contexts = 1, evaluated = [script_template, stringify_eval escaped_template], fetched = []\<rparr>"
  have t1: "trace_eval FastAPI (run demo_engine (early 0) (JObj []) script_template) [] =
        (Inr (JSObject 3), JObj [], [])"
    and u1: "trace_eval FastAPI (run demo_engine (early 1) (JObj []) (stringify_eval escaped_template)) [] =
        (Inr (Plain (JStr (''{'' @ dq @ ''a'' @ dq @ '':'' @ dq @ ''$'' @ dq @ ''}''))), JObj [], [])"
    by code_simp+
  have h1: "trace_eval FastAPI (run demo_engine (early 0) (JObj []) script_template) [] =
        (Inr (JSObject 3), JObj [], [])
      \<and> trace_eval FastAPI (run demo_engine (early 1) (JObj []) (stringify_eval escaped_template)) [] =
        (Inr (Plain (JStr (''{'' @ dq @ ''a'' @ dq @ '':'' @ dq @ ''$'' @ dq @ ''}''))), JObj [], [])
      \<and> ?w1 = ?w1
      \<and> ?failed [] ?w1 (inputs ?r1) script_template = ?failed [] ?w1 (inputs ?r1) script_template"
    by (intro conjI refl t1 u1)
  have 1: "execute_code FastAPI demo_engine early demo_loads demo_transport ?r1 =
     (ExecuteResponse (Plain (JObj [(''a'', JStr ''$'')])), ?w1)"
    using mp [OF conjunct1 [OF jsobject_reevaluated [where ent = early and loads = demo_loads
            and tr = demo_transport, OF c n1 b a1]] h1]
    by (simp add: demo_loads_def dq_def)
  \<comment> \<open>fast path, the re-evaluation yields nothing\<close>
  let ?r2 = "\<lparr>code = JStr script_opaque, inputs = JObj []\<rparr>"
  let ?w2 = "\<lparr>contexts = 1, evaluated = [script_opaque, stringify_eval script_opaque], fetched = []\<rparr>"
  have t2: "trace_eval FastAPI (run demo_engine (early 0) (JObj []) script_opaque) [] =
        (Inr (JSObject 2), JObj [], [])"
    and u2: "trace_eval FastAPI (run demo_engine (early 1) (JObj []) (stringify_eval script_opaque)) [] =
        (Inr (Plain JNull), JObj [], [])"
    by code_simp+
  have h2: "trace_eval FastAPI (run demo_engine (early 0) (JObj []) script_opaque) [] =
        (Inr (JSObject 2), JObj [], [])
      \<and> trace_eval FastAPI (run demo_engine (early 1) (JObj []) (stringify_eval script_opaque)) [] =
        (Inr (Plain JNull), JObj [], [])
      \<and> ?w2 = ?w2
      \<and> ?failed [] ?w2 (inputs ?r2) script_opaque = ?failed [] ?w2 (inputs ?r2) script_opaque"
    by (intro conjI refl t2 u2)
  have 2: "execute_code FastAPI demo_engine early demo_loads demo_transport ?r2 =
     (ExecuteResponse (JSObject 2), ?w2)"
    using mp [OF conjunct1 [OF jsobject_reevaluated [where ent = early and loads = demo_loads
            and tr = demo_transport, OF c n2 b a2]] h2]
    by simp
  \<comment> \<open>fast path, the re-evaluation raises\<close>
  let ?r3 = "\<lparr>code = JStr script_once, inputs = JObj []\<rparr>"
  let ?w3 = "\<lparr>contexts = 1, evaluated = [script_once, stringify_eval script_once], fetched = []\<rparr>"
  have t3: "trace_eval FastAPI (run demo_engine (early 0) (JObj []) script_once) [] =
        (Inr (JSObject 4), JObj [(''seen'', JNum 1)], [])"
    and u3: "trace_eval FastAPI (run demo_engine (early 1) (JObj [(''seen'', JNum 1)])
          (stringify_eval script_once)) [] =
        (Inl ''Error: 1'', JObj [(''seen'', JNum 1)], [])"
    by code_simp+
  have h3: "trace_eval FastAPI (run demo_engine (early 0) (JObj []) script_once) [] =
        (Inr (JSObject 4), JObj [(''seen'', JNum 1)], [])
      \<and> trace_eval FastAPI (run demo_engine (early 1) (JObj [(''seen'', JNum 1)])
          (stringify_eval script_once)) [] =
        (Inl ''Error: 1'', JObj [(''seen'', JNum 1)], [])
      \<and> ?w3 = ?w3
      \<and> ?failed [] ?w3 (inputs ?r3) script_once = ?failed [] ?w3 (inputs ?r3) script_once"
    by (intro conjI refl t3 u3)
  have 3: "execute_code FastAPI demo_engine early demo_loads demo_transport ?r3 =
     (HTTPException 500 (JObj [(''error'', JStr ''Execution failed''), (''message'', JStr ''Error: 1'')]),
      ?w3)"
    using mp [OF conjunct1 [OF jsobject_reevaluated [where ent = early and loads = demo_loads
            and tr = demo_transport, OF c n3 b a3]] h3]
    by simp
  \<comment> \<open>second pass\<close>
  let ?r4 = "\<lparr>code = JStr script_envelope, inputs = inputs_u\<rparr>"
  let ?env = "success_envelope todo_response"
  let ?m = "[(py_key FastAPI todo_url (JObj []), ?env)]"
  let ?w = "\<lparr>contexts = 1, evaluated = [script_envelope],
             fetched = [\<lparr>req_method = JStr ''GET'', req_url = todo_url, req_headers = JObj [],
                         req_content = JNull\<rparr>]\<rparr>"
  let ?w4 = "?w\<lparr>contexts := 2, evaluated := [script_envelope, script_envelope, stringify_eval script_envelope]\<rparr>"
  let ?failed' = "\<lambda>e. (HTTPException 500
                        (JObj [(''error'', JStr ''Execution failed''), (''message'', JStr e)]), ?w4)"
  have t4: "trace_eval FastAPI (run demo_engine (early 0) inputs_u script_envelope) [] =
        (Inr (Plain JNull), inputs_u, [traced (Some todo_url) None])"
    and l4: "[traced (Some todo_url) None] \<noteq> []"
    and s4: "resolve FastAPI demo_transport [traced (Some todo_url) None]
          \<lparr>contexts = 1, evaluated = [script_envelope], fetched = []\<rparr> = (Inr ?m, ?w)"
    and u4: "replay_eval FastAPI (run demo_engine (early 1) inputs_u script_envelope) ?m =
        (Inr (JSObject 1), inputs_u, ?m)"
    and v4: "replay_eval FastAPI (run demo_engine (early 2) inputs_u (stringify_eval script_envelope)) ?m =
        (Inr (Plain (JStr (js_stringify ?env))), inputs_u, ?m)"
    by code_simp+
  have h4: "trace_eval FastAPI (run demo_engine (early 0) inputs_u script_envelope) [] =
        (Inr (Plain JNull), inputs_u, [traced (Some todo_url) None])
      \<and> [traced (Some todo_url) None] \<noteq> []
      \<and> resolve FastAPI demo_transport [traced (Some todo_url) None]
          \<lparr>contexts = 1, evaluated = [script_envelope], fetched = []\<rparr> = (Inr ?m, ?w)
      \<and> replay_eval FastAPI (run demo_engine (early 1) inputs_u script_envelope) ?m =
        (Inr (JSObject 1), inputs_u, ?m)
      \<and> replay_eval FastAPI (run demo_engine (early 2) inputs_u (stringify_eval script_envelope)) ?m =
        (Inr (Plain (JStr (js_stringify ?env))), inputs_u, ?m)
      \<and> ?w4 = ?w4
      \<and> ?failed' = ?failed'"
    by (intro conjI refl t4 l4 s4 u4 v4)
  have ne: "js_stringify ?env \<noteq> []"
    by code_simp
  have ld: "demo_loads (js_stringify ?env) = Inr ?env"
    by code_simp
  have 4: "execute_code FastAPI demo_engine early demo_loads demo_transport ?r4 =
     (ExecuteResponse (Plain ?env), ?w4)"
    using mp [OF conjunct2 [OF jsobject_reevaluated [where ent = early and loads = demo_loads
            and tr = demo_transport, OF c n4 b a4]] h4]
    by (simp add: ne ld)
  from 1 2 3 4 show ?thesis by simp
qed

text \<open>
  The counterexample to claim C9 as stated: the script
  \<^verbatim>\<open>if (INPUTS.seen) throw new Error(INPUTS.seen); INPUTS.seen = 1; ({a: 1})\<close> makes no
  interception call; its first evaluation yields an opaque object and marks the context, its
  re-evaluation in the same context raises, and the request is answered with error 500,
  neither with parsed JSON nor with the opaque object.
\<close>

theorem reevaluation_raises_counterexample:
  "trace_eval FastAPI (run demo_engine (early 0) (JObj []) script_once) [] =
      (Inr (JSObject 4), JObj [(''seen'', JNum 1)], [])
   \<and> trace_eval FastAPI (run demo_engine (early 1) (JObj [(''seen'', JNum 1)])
        (reeval_source script_once)) [] =
      (Inl ''Error: 1'', JObj [(''seen'', JNum 1)], [])
   \<and> execute_code FastAPI demo_engine early demo_loads demo_transport
        \<lparr>code = JStr script_once, inputs = JObj []\<rparr> =
      (HTTPException 500
         (JObj [(''error'', JStr ''Execution failed''), (''message'', JStr ''Error: 1'')]),
       \<lparr>contexts = 1, evaluated = [script_once, stringify_eval script_once], fetched = []\<rparr>)"
  by code_simp

section \<open>Determinism in request, transport and clock\<close>

lemma fetch_attempt_shape:
  "(\<exists>e. \<forall>tr. fetch_attempt tr u options = (Inl e, []))
   \<or> (\<exists>rq. \<forall>tr. fetch_attempt tr u options =
          (case tr rq of
             Inl e \<Rightarrow> (Inl e, [rq])
           | Inr resp \<Rightarrow> (Inr (success_envelope resp), [rq])))"
proof (cases "dict_get options ''method'' (JStr ''GET'')")
  case (Inl e)
  then show ?thesis by (simp add: fetch_attempt_def)
next
  case m: (Inr m)
  show ?thesis
  proof (cases "dict_get options ''headers'' (JObj [])")
    case (Inl e)
    with m show ?thesis by (simp add: fetch_attempt_def)
  next
    case h: (Inr h)
    show ?thesis
    proof (cases "dict_get options ''body'' JNull")
      case (Inl e)
      with m h show ?thesis by (simp add: fetch_attempt_def)
    next
      case (Inr b)
      with m h have "\<forall>tr. fetch_attempt tr u options =
          (case tr \<lparr>req_method = m, req_url = u, req_headers = h, req_content = b\<rparr> of
             Inl e \<Rightarrow> (Inl e, [\<lparr>req_method = m, req_url = u, req_headers = h, req_content = b\<rparr>])
           | Inr resp \<Rightarrow> (Inr (success_envelope resp),
               [\<lparr>req_method = m, req_url = u, req_headers = h, req_content = b\<rparr>]))"
        by (simp add: fetch_attempt_def Let_def)
      then show ?thesis by blast
    qed
  qed
qed

lemma fetch_attempt_agree:
  assumes "\<forall>rq \<in> set (snd (fetch_attempt tr u options)). tr' rq = tr rq"
  shows "fetch_attempt tr' u options = fetch_attempt tr u options"
proof -
  from fetch_attempt_shape [of u options] show ?thesis
  proof
    assume "\<exists>e. \<forall>tr. fetch_attempt tr u options = (Inl e, [])"
    then show ?thesis by auto
  next
    assume "\<exists>rq. \<forall>tr. fetch_attempt tr u options =
          (case tr rq of
             Inl e \<Rightarrow> (Inl e, [rq])
           | Inr resp \<Rightarrow> (Inr (success_envelope resp), [rq]))"
    then obtain rq where s: "\<And>tr. fetch_attempt tr u options =
          (case tr rq of
             Inl e \<Rightarrow> (Inl e, [rq])
           | Inr resp \<Rightarrow> (Inr (success_envelope resp), [rq]))"
      by blast
    have "snd (fetch_attempt tr u options) = [rq]"
      unfolding s [of tr] by (cases "tr rq") simp_all
    with assms have "tr' rq = tr rq" by simp
    then show ?thesis
      unfolding s [of tr] s [of tr'] by (simp only:)
  qed
qed

lemma perform_fetch_sent: "snd (perform_fetch tr u options) =
    snd (fetch_attempt tr u (if options = JNull then JObj [] else options))"
  by (simp add: perform_fetch_def Let_def split: prod.splits sum.splits)

lemma perform_fetch_agree:
  assumes "\<forall>rq \<in> set (snd (perform_fetch tr u options)). tr' rq = tr rq"
  shows "perform_fetch tr' u options = perform_fetch tr u options"
proof -
  from assms have "fetch_attempt tr' u (if options = JNull then JObj [] else options) =
      fetch_attempt tr u (if options = JNull then JObj [] else options)"
    unfolding perform_fetch_sent by (rule fetch_attempt_agree)
  then show ?thesis
    by (simp only: perform_fetch_def Let_def)
qed

lemma fetches_agree:
  assumes "\<forall>rq \<in> set (concat (map (\<lambda>(u, opts). snd (perform_fetch tr u opts)) args)). tr' rq = tr rq"
  shows "map (\<lambda>(u, opts). perform_fetch tr' u opts) args = map (\<lambda>(u, opts). perform_fetch tr u opts) args"
  using assms
proof (induction args)
  case Nil
  then show ?case by simp
next
  case (Cons a args)
  obtain u opts where a: "a = (u, opts)" by (cases a)
  from Cons.prems a have "\<forall>rq \<in> set (snd (perform_fetch tr u opts)). tr' rq = tr rq"
    by simp
  then have 1: "perform_fetch tr' u opts = perform_fetch tr u opts"
    by (rule perform_fetch_agree)
  from Cons.prems have "\<forall>rq \<in> set (concat (map (\<lambda>(u, opts). snd (perform_fetch tr u opts)) args)).
      tr' rq = tr rq"
    by simp
  then have 2: "map (\<lambda>(u, opts). perform_fetch tr' u opts) args =
      map (\<lambda>(u, opts). perform_fetch tr u opts) args"
    by (rule Cons.IH)
  show ?case unfolding a by (simp only: list.map prod.case 1 2)
qed

lemma resolve_fetched: "fetched (snd (resolve v tr log w)) = fetched w @ sent_of tr log"
  by (auto simp: resolve_def sent_of_def gather_def comp_def split_def split: sum.splits)

lemma resolve_agree:
  assumes "\<forall>rq \<in> set (sent_of tr log). tr' rq = tr rq"
  shows "resolve v tr' log w = resolve v tr log w"
proof (cases "call_args log")
  case (Inl e)
  then show ?thesis by (simp add: resolve_def)
next
  case (Inr args)
  with assms have "map (\<lambda>(u, opts). perform_fetch tr' u opts) args =
      map (\<lambda>(u, opts). perform_fetch tr u opts) args"
    by (intro fetches_agree) (simp add: sent_of_def)
  then show ?thesis by (simp only: resolve_def Inr sum.case)
qed

lemma ctx_eval_fetched: "fetched (snd (snd (ctx_eval v E ent ctx src w))) = fetched w"
  by (cases ctx) (simp_all add: ctx_eval_def Let_def split: prod.splits)

lemma handle_jsobject_fetched:
  "fetched (snd (snd (handle_jsobject v E ent loads src ctx result w))) = fetched w"
proof (cases result)
  case (Plain x)
  then show ?thesis by (simp add: handle_jsobject_def)
next
  case (JSObject h)
  obtain r ctx' w' where c: "ctx_eval v E ent ctx (reeval_source src) w = (r, ctx', w')"
    by (cases "ctx_eval v E ent ctx (reeval_source src) w")
  with ctx_eval_fetched [of v E ent ctx "reeval_source src" w] have "fetched w' = fetched w"
    by simp
  with JSObject c show ?thesis
    by (simp add: handle_jsobject_def split: sum.splits)
qed

lemma replay_fetched: "fetched (snd (replay v E ent loads ins src m w)) = fetched w"
proof (cases "boot E ins")
  case (Inl e)
  then show ?thesis by (simp add: replay_def create_context_with_http_support_def)
next
  case (Inr c)
  let ?w1 = "w\<lparr>contexts := contexts w + 1\<rparr>"
  obtain r ctx3 w2 where c: "ctx_eval v E ent (ReplayCtx c m) src ?w1 = (r, ctx3, w2)"
    by (cases "ctx_eval v E ent (ReplayCtx c m) src ?w1")
  with ctx_eval_fetched [of v E ent "ReplayCtx c m" src ?w1] have f2: "fetched w2 = fetched w"
    by simp
  show ?thesis
  proof (cases r)
    case (Inl e)
    with Inr c f2 show ?thesis
      by (simp add: replay_def create_context_with_http_support_def)
  next
    case r: (Inr result)
    obtain r2 ctx4 w3 where h: "handle_jsobject v E ent loads src ctx3 result w2 = (r2, ctx4, w3)"
      by (cases "handle_jsobject v E ent loads src ctx3 result w2")
    with handle_jsobject_fetched [of v E ent loads src ctx3 result w2] have "fetched w3 = fetched w2"
      by simp
    with Inr c f2 r h show ?thesis
      by (cases v) (simp_all add: replay_def create_context_with_http_support_def)
  qed
qed

lemma resolve_and_replay_fetched:
  "fetched (snd (resolve_and_replay v E ent loads tr ins src log w)) = fetched w @ sent_of tr log"
proof -
  obtain r w1 where x: "resolve v tr log w = (r, w1)"
    by (cases "resolve v tr log w")
  with resolve_fetched [of v tr log w] have "fetched w1 = fetched w @ sent_of tr log"
    by simp
  with x show ?thesis
    by (cases r) (simp_all add: resolve_and_replay_def replay_fetched)
qed

lemma resolve_and_replay_agree:
  assumes "\<forall>rq \<in> set (sent_of tr log). tr' rq = tr rq"
  shows "resolve_and_replay v E ent loads tr' ins src log w = resolve_and_replay v E ent loads tr ins src log w"
  by (simp add: resolve_and_replay_def resolve_agree [OF assms])

lemma execute_try_agree:
  assumes "\<forall>rq \<in> set (fetched (snd (execute_try v E ent loads tr ins src))). tr' rq = tr rq"
  shows "execute_try v E ent loads tr' ins src = execute_try v E ent loads tr ins src"
proof (cases "create_context_with_http_support E ins None no_effects")
  case (Pair r w)
  show ?thesis
  proof (cases r)
    case (Inl e)
    with Pair show ?thesis by (simp add: execute_try_def)
  next
    case (Inr ctx)
    obtain p w1 where f: "first_pass v E ent loads src ctx w = (p, w1)"
      by (cases "first_pass v E ent loads src ctx w")
    show ?thesis
    proof (cases p)
      case (Continue log)
      with Pair Inr f assms
      have "\<forall>rq \<in> set (fetched (snd (resolve_and_replay v E ent loads tr ins src log w1))). tr' rq = tr rq"
        by (simp add: execute_try_def)
      then have "\<forall>rq \<in> set (sent_of tr log). tr' rq = tr rq"
        by (simp add: resolve_and_replay_fetched)
      from resolve_and_replay_agree [OF this, of v E ent loads ins src w1] Pair Inr f Continue show ?thesis
        by (simp add: execute_try_def)
    qed (use Pair Inr f in \<open>simp_all add: execute_try_def\<close>)
  qed
qed

text \<open>A script whose evaluation does not depend on the clock gives the same run under any clock.\<close>

lemma ctx_eval_clock:
  assumes "\<forall>n c. run E n c s = run E 0 c s"
  shows "ctx_eval v E ent' ctx s w = ctx_eval v E ent ctx s w"
proof -
  have "run E (ent' k) c s = run E (ent k) c s" for k c
    using assms by metis
  then show ?thesis
    by (cases ctx) (simp_all add: ctx_eval_def)
qed

lemma handle_jsobject_clock:
  assumes "\<forall>n c. run E n c (reeval_source src) = run E 0 c (reeval_source src)"
  shows "handle_jsobject v E ent' loads src ctx result w = handle_jsobject v E ent loads src ctx result w"
  by (simp add: handle_jsobject_def ctx_eval_clock [OF assms, where ent' = ent' and ent = ent]
      cong: pyres.case_cong)

lemma first_pass_clock:
  assumes "\<forall>n c. run E n c src = run E 0 c src"
    and "\<forall>n c. run E n c (reeval_source src) = run E 0 c (reeval_source src)"
  shows "first_pass v E ent' loads src ctx w = first_pass v E ent loads src ctx w"
  by (simp add: first_pass_def ctx_eval_clock [OF assms(1), where ent' = ent' and ent = ent]
      handle_jsobject_clock [OF assms(2), where ent' = ent' and ent = ent]
      cong: sum.case_cong prod.case_cong variant.case_cong if_cong)

lemma replay_clock:
  assumes "\<forall>n c. run E n c src = run E 0 c src"
    and "\<forall>n c. run E n c (reeval_source src) = run E 0 c (reeval_source src)"
  shows "replay v E ent' loads ins src m w = replay v E ent loads ins src m w"
  by (simp add: replay_def ctx_eval_clock [OF assms(1), where ent' = ent' and ent = ent]
      handle_jsobject_clock [OF assms(2), where ent' = ent' and ent = ent]
      cong: sum.case_cong prod.case_cong variant.case_cong if_cong)

lemma execute_try_clock:
  assumes "\<forall>n c. run E n c src = run E 0 c src"
    and "\<forall>n c. run E n c (reeval_source src) = run E 0 c (reeval_source src)"
  shows "execute_try v E ent' loads tr ins src = execute_try v E ent loads tr ins src"
  by (simp add: execute_try_def resolve_and_replay_def
      first_pass_clock [OF assms, where ent' = ent' and ent = ent]
      replay_clock [OF assms, where ent' = ent' and ent = ent]
      cong: sum.case_cong prod.case_cong first_pass_end.case_cong)

lemma demo_run_clock: "src \<noteq> script_now \<Longrightarrow> demo_run n c src = demo_run 0 c src"
  by (simp add: demo_run_def)

text \<open>
  Claim C8, as amended. For a script whose evaluation does not depend on the clock or the
  random source, what \<^verbatim>\<open>execute_code\<close> answers, and everything it does on the way, is
  determined by the request and by what the transport answers to the requests that are
  dispatched: a second run of the same request, at another time and against a transport that
  answers those requests as the first one did, gives the identical result. Without the
  condition on the script the claim fails, see the counterexample below.
\<close>

theorem execute_code_deterministic:
  assumes "\<forall>n c. run E n c (code_source (code request)) = run E 0 c (code_source (code request))"
    and "\<forall>n c. run E n c (reeval_source (code_source (code request))) =
               run E 0 c (reeval_source (code_source (code request)))"
    and "\<forall>rq \<in> set (fetched (snd (execute_code v E ent loads tr request))). tr' rq = tr rq"
  shows "execute_code v E ent' loads tr' request = execute_code v E ent loads tr request"
proof (cases "invalid_code (code request)")
  case True
  then show ?thesis by (simp add: execute_code_def)
next
  case False
  let ?src = "code_source (code request)"
  let ?x = "execute_try v E ent loads tr (inputs request) ?src"
  have "snd (execute_code v E ent loads tr request) = snd ?x"
    using False by (simp add: execute_code_def split: prod.splits sum.splits)
  with assms(3) have "\<forall>rq \<in> set (fetched (snd ?x)). tr' rq = tr rq"
    by simp
  then have "execute_try v E ent loads tr' (inputs request) ?src = ?x"
    by (rule execute_try_agree)
  moreover have "execute_try v E ent' loads tr' (inputs request) ?src =
      execute_try v E ent loads tr' (inputs request) ?src"
    by (rule execute_try_clock [OF assms(1,2)])
  ultimately show ?thesis
    using False by (simp add: execute_code_def)
qed

theorem execute_code_deterministic_witness:
  "fetched (snd (execute_code FastAPI demo_engine early demo_loads demo_transport
        \<lparr>code = JStr script_title, inputs = inputs_u\<rparr>)) =
      [\<lparr>req_method = JStr ''GET'', req_url = todo_url, req_headers = JObj [], req_content = JNull\<rparr>]
   \<and> offline_transport \<lparr>req_method = JStr ''POST'', req_url = todo_url, req_headers = JObj [],
          req_content = JNull\<rparr>
       \<noteq> demo_transport \<lparr>req_method = JStr ''POST'', req_url = todo_url, req_headers = JObj [],
          req_content = JNull\<rparr>
   \<and> late 0 \<noteq> early 0
   \<and> execute_code FastAPI demo_engine late demo_loads offline_transport
        \<lparr>code = JStr script_title, inputs = inputs_u\<rparr> =
      execute_code FastAPI demo_engine early demo_loads demo_transport
        \<lparr>code = JStr script_title, inputs = inputs_u\<rparr>"
proof -
  let ?req = "\<lparr>code = JStr script_title, inputs = inputs_u\<rparr>"
  let ?rq = "\<lparr>req_method = JStr ''GET'', req_url = todo_url, req_headers = JObj [], req_content = JNull\<rparr>"
  have f: "fetched (snd (execute_code FastAPI demo_engine early demo_loads demo_transport ?req)) = [?rq]"
    by code_simp
  have d: "offline_transport \<lparr>req_method = JStr ''POST'', req_url = todo_url, req_headers = JObj [],
          req_content = JNull\<rparr>
       \<noteq> demo_transport \<lparr>req_method = JStr ''POST'', req_url = todo_url, req_headers = JObj [],
          req_content = JNull\<rparr>"
    by (simp add: offline_transport_def demo_transport_def)
  have t: "late 0 \<noteq> early 0"
    by (simp add: late_def early_def)
  have a: "offline_transport ?rq = demo_transport ?rq"
    by (simp add: offline_transport_def demo_transport_def)
  have h: "\<forall>rq \<in> set (fetched (snd (execute_code FastAPI demo_engine early demo_loads demo_transport ?req))).
      offline_transport rq = demo_transport rq"
    unfolding f using a by simp
  have s: "code_source (code ?req) = script_title"
    by (simp add: code_source_def)
  have n1: "script_title \<noteq> script_now"
    by (simp add: script_title_def script_now_def)
  have n2: "reeval_source script_title \<noteq> script_now"
    by code_simp
  have k1: "\<forall>n c. run demo_engine n c (code_source (code ?req)) =
      run demo_engine 0 c (code_source (code ?req))"
    unfolding s using demo_run_clock [OF n1] by (simp add: demo_engine_def)
  have k2: "\<forall>n c. run demo_engine n c (reeval_source (code_source (code ?req))) =
      run demo_engine 0 c (reeval_source (code_source (code ?req)))"
    unfolding s using demo_run_clock [OF n2] by (simp add: demo_engine_def)
  have e: "execute_code FastAPI demo_engine late demo_loads offline_transport ?req =
      execute_code FastAPI demo_engine early demo_loads demo_transport ?req"
    by (rule execute_code_deterministic [OF k1 k2 h])
  from f d t e show ?thesis by (intro conjI)
qed

text \<open>
  The counterexample to claim C8 as stated: the request with the code \<^verbatim>\<open>Date.now()\<close>, run
  at two different times, is answered with two different results in both files; no request
  is dispatched, so the transport's responses are trivially the same.
\<close>

theorem clock_counterexample:
  "execute_code FastAPI demo_engine early demo_loads demo_transport
        \<lparr>code = JStr script_now, inputs = JObj []\<rparr> =
      (ExecuteResponse (Plain (JNum 1000)), \<lparr>contexts = 1, evaluated = [script_now], fetched = []\<rparr>)
   \<and> execute_code FastAPI demo_engine late demo_loads demo_transport
        \<lparr>code = JStr script_now, inputs = JObj []\<rparr> =
      (ExecuteResponse (Plain (JNum 2000)), \<lparr>contexts = 1, evaluated = [script_now], fetched = []\<rparr>)
   \<and> fst (execute_code FastAPI demo_engine early demo_loads demo_transport
        \<lparr>code = JStr script_now, inputs = JObj []\<rparr>)
     \<noteq> fst (execute_code FastAPI demo_engine late demo_loads demo_transport
        \<lparr>code = JStr script_now, inputs = JObj []\<rparr>)
   \<and> fst (execute_code Standalone demo_engine early demo_loads demo_transport
        \<lparr>code = JStr script_now, inputs = JObj []\<rparr>)
     \<noteq> fst (execute_code Standalone demo_engine late demo_loads demo_transport
        \<lparr>code = JStr script_now, inputs = JObj []\<rparr>)"
  by code_simp

section \<open>The two files compared\<close>





end
